theory Spec2Isabelle
  imports Main
begin

section \<open>Strings and values of the JavaScript runtime\<close>

text \<open>
  The extension is TypeScript on the VS Code API and the \<open>simple-git\<close> binding. A string
  is modelled as \<open>string\<close>, the UTF-8 bytes of the source text: the user-interface texts of
  the source are Japanese and are written out below byte by byte, each with its place in
  the source. The string operations the code applies (\<open>includes\<close> with an ASCII needle,
  \<open>substring\<close> of a commit hash, \<open>slice\<close> and \<open>replace\<close> on an ISO date, equality and
  emptiness) agree on bytes and on UTF-16 code units for the ASCII data they are applied to.
\<close>

text \<open>
  The texts of the tree view (the unnamed source file with the class
  \<open>GitTreeViewProvider\<close>), of the commands (\<open>treeDataProvider.ts\<close>) and of the commit
  editor and its page (\<open>commitEditor.ts\<close>), with an English gloss.
\<close>

definition txt_open_workspace :: string where
  \<comment> \<open>line 31: 'please open a workspace'\<close>
  "txt_open_workspace =
    [CHR 0xE3, CHR 0x83, CHR 0xAF, CHR 0xE3, CHR 0x83, CHR 0xBC, CHR 0xE3, CHR 0x82, CHR 0xAF,
    CHR 0xE3, CHR 0x82, CHR 0xB9, CHR 0xE3, CHR 0x83, CHR 0x9A, CHR 0xE3, CHR 0x83, CHR 0xBC,
    CHR 0xE3, CHR 0x82, CHR 0xB9, CHR 0xE3, CHR 0x82, CHR 0x92, CHR 0xE9, CHR 0x96, CHR 0x8B,
    CHR 0xE3, CHR 0x81, CHR 0x84, CHR 0xE3, CHR 0x81, CHR 0xA6, CHR 0xE3, CHR 0x81, CHR 0x8F,
    CHR 0xE3, CHR 0x81, CHR 0xA0, CHR 0xE3, CHR 0x81, CHR 0x95, CHR 0xE3, CHR 0x81, CHR 0x84]"

definition txt_branch :: string where
  \<comment> \<open>line 41: prefix 'branch: '\<close>
  "txt_branch =
    [CHR 0xE3, CHR 0x83, CHR 0x96, CHR 0xE3, CHR 0x83, CHR 0xA9, CHR 0xE3, CHR 0x83, CHR 0xB3,
    CHR 0xE3, CHR 0x83, CHR 0x81, CHR 0x3A, CHR 0x20]"

definition txt_tracking :: string where
  \<comment> \<open>line 48: prefix 'tracking: '\<close>
  "txt_tracking =
    [CHR 0xE8, CHR 0xBF, CHR 0xBD, CHR 0xE8, CHR 0xB7, CHR 0xA1, CHR 0xE4, CHR 0xB8, CHR 0xAD,
    CHR 0x3A, CHR 0x20]"

definition txt_modified_files :: string where
  \<comment> \<open>line 57: 'modified files ('\<close>
  "txt_modified_files =
    [CHR 0xE5, CHR 0xA4, CHR 0x89, CHR 0xE6, CHR 0x9B, CHR 0xB4, CHR 0xE3, CHR 0x81, CHR 0x95,
    CHR 0xE3, CHR 0x82, CHR 0x8C, CHR 0xE3, CHR 0x81, CHR 0x9F, CHR 0xE3, CHR 0x83, CHR 0x95,
    CHR 0xE3, CHR 0x82, CHR 0xA1, CHR 0xE3, CHR 0x82, CHR 0xA4, CHR 0xE3, CHR 0x83, CHR 0xAB,
    CHR 0x20, CHR 0x28]"

definition txt_staged_files :: string where
  \<comment> \<open>line 66: 'staged files ('\<close>
  "txt_staged_files =
    [CHR 0xE3, CHR 0x82, CHR 0xB9, CHR 0xE3, CHR 0x83, CHR 0x86, CHR 0xE3, CHR 0x83, CHR 0xBC,
    CHR 0xE3, CHR 0x82, CHR 0xB8, CHR 0xE3, CHR 0x81, CHR 0x95, CHR 0xE3, CHR 0x82, CHR 0x8C,
    CHR 0xE3, CHR 0x81, CHR 0x9F, CHR 0xE3, CHR 0x83, CHR 0x95, CHR 0xE3, CHR 0x82, CHR 0xA1,
    CHR 0xE3, CHR 0x82, CHR 0xA4, CHR 0xE3, CHR 0x83, CHR 0xAB, CHR 0x20, CHR 0x28]"

definition txt_untracked_files :: string where
  \<comment> \<open>line 75: 'untracked files ('\<close>
  "txt_untracked_files =
    [CHR 0xE8, CHR 0xBF, CHR 0xBD, CHR 0xE8, CHR 0xB7, CHR 0xA1, CHR 0xE3, CHR 0x81, CHR 0x95,
    CHR 0xE3, CHR 0x82, CHR 0x8C, CHR 0xE3, CHR 0x81, CHR 0xA6, CHR 0xE3, CHR 0x81, CHR 0x84,
    CHR 0xE3, CHR 0x81, CHR 0xAA, CHR 0xE3, CHR 0x81, CHR 0x84, CHR 0xE3, CHR 0x83, CHR 0x95,
    CHR 0xE3, CHR 0x82, CHR 0xA1, CHR 0xE3, CHR 0x82, CHR 0xA4, CHR 0xE3, CHR 0x83, CHR 0xAB,
    CHR 0x20, CHR 0x28]"

definition txt_unpushed_commits :: string where
  \<comment> \<open>line 116: 'unpushed commits ('\<close>
  "txt_unpushed_commits =
    [CHR 0xE3, CHR 0x83, CHR 0x97, CHR 0xE3, CHR 0x83, CHR 0x83, CHR 0xE3, CHR 0x82, CHR 0xB7,
    CHR 0xE3, CHR 0x83, CHR 0xA5, CHR 0xE3, CHR 0x81, CHR 0x95, CHR 0xE3, CHR 0x82, CHR 0x8C,
    CHR 0xE3, CHR 0x81, CHR 0xA6, CHR 0xE3, CHR 0x81, CHR 0x84, CHR 0xE3, CHR 0x81, CHR 0xAA,
    CHR 0xE3, CHR 0x81, CHR 0x84, CHR 0xE3, CHR 0x82, CHR 0xB3, CHR 0xE3, CHR 0x83, CHR 0x9F,
    CHR 0xE3, CHR 0x83, CHR 0x83, CHR 0xE3, CHR 0x83, CHR 0x88, CHR 0x20, CHR 0x28]"

definition txt_latest_commits :: string where
  \<comment> \<open>line 126: 'latest commits ('\<close>
  "txt_latest_commits =
    [CHR 0xE6, CHR 0x9C, CHR 0x80, CHR 0xE6, CHR 0x96, CHR 0xB0, CHR 0xE3, CHR 0x81, CHR 0xAE,
    CHR 0xE3, CHR 0x82, CHR 0xB3, CHR 0xE3, CHR 0x83, CHR 0x9F, CHR 0xE3, CHR 0x83, CHR 0x83,
    CHR 0xE3, CHR 0x83, CHR 0x88, CHR 0x20, CHR 0x28]"

definition txt_local_commits :: string where
  \<comment> \<open>line 139: 'local commits ('\<close>
  "txt_local_commits =
    [CHR 0xE3, CHR 0x83, CHR 0xAD, CHR 0xE3, CHR 0x83, CHR 0xBC, CHR 0xE3, CHR 0x82, CHR 0xAB,
    CHR 0xE3, CHR 0x83, CHR 0xAB, CHR 0xE3, CHR 0x82, CHR 0xB3, CHR 0xE3, CHR 0x83, CHR 0x9F,
    CHR 0xE3, CHR 0x83, CHR 0x83, CHR 0xE3, CHR 0x83, CHR 0x88, CHR 0x20, CHR 0x28]"

definition txt_new_commit :: string where
  \<comment> \<open>lines 151, 156: 'create a new commit'\<close>
  "txt_new_commit =
    [CHR 0xE6, CHR 0x96, CHR 0xB0, CHR 0xE3, CHR 0x81, CHR 0x97, CHR 0xE3, CHR 0x81, CHR 0x84,
    CHR 0xE3, CHR 0x82, CHR 0xB3, CHR 0xE3, CHR 0x83, CHR 0x9F, CHR 0xE3, CHR 0x83, CHR 0x83,
    CHR 0xE3, CHR 0x83, CHR 0x88, CHR 0xE3, CHR 0x82, CHR 0x92, CHR 0xE4, CHR 0xBD, CHR 0x9C,
    CHR 0xE6, CHR 0x88, CHR 0x90]"

definition txt_no_repository :: string where
  \<comment> \<open>line 162: 'no Git repository found'\<close>
  "txt_no_repository =
    [CHR 0x47, CHR 0x69, CHR 0x74, CHR 0xE3, CHR 0x83, CHR 0xAA, CHR 0xE3, CHR 0x83, CHR 0x9D,
    CHR 0xE3, CHR 0x82, CHR 0xB8, CHR 0xE3, CHR 0x83, CHR 0x88, CHR 0xE3, CHR 0x83, CHR 0xAA,
    CHR 0xE3, CHR 0x81, CHR 0x8C, CHR 0xE8, CHR 0xA6, CHR 0x8B, CHR 0xE3, CHR 0x81, CHR 0xA4,
    CHR 0xE3, CHR 0x81, CHR 0x8B, CHR 0xE3, CHR 0x82, CHR 0x8A, CHR 0xE3, CHR 0x81, CHR 0xBE,
    CHR 0xE3, CHR 0x81, CHR 0x9B, CHR 0xE3, CHR 0x82, CHR 0x93]"

definition txt_show_changes :: string where
  \<comment> \<open>lines 180, 192: 'show changes'\<close>
  "txt_show_changes =
    [CHR 0xE5, CHR 0xA4, CHR 0x89, CHR 0xE6, CHR 0x9B, CHR 0xB4, CHR 0xE7, CHR 0x82, CHR 0xB9,
    CHR 0xE3, CHR 0x82, CHR 0x92, CHR 0xE8, CHR 0xA1, CHR 0xA8, CHR 0xE7, CHR 0xA4, CHR 0xBA]"

definition txt_show_new_file :: string where
  \<comment> \<open>line 204: 'show new file content'\<close>
  "txt_show_new_file =
    [CHR 0xE6, CHR 0x96, CHR 0xB0, CHR 0xE8, CHR 0xA6, CHR 0x8F, CHR 0xE3, CHR 0x83, CHR 0x95,
    CHR 0xE3, CHR 0x82, CHR 0xA1, CHR 0xE3, CHR 0x82, CHR 0xA4, CHR 0xE3, CHR 0x83, CHR 0xAB,
    CHR 0xE5, CHR 0x86, CHR 0x85, CHR 0xE5, CHR 0xAE, CHR 0xB9, CHR 0xE3, CHR 0x82, CHR 0x92,
    CHR 0xE8, CHR 0xA1, CHR 0xA8, CHR 0xE7, CHR 0xA4, CHR 0xBA]"

definition txt_edit_commit_time :: string where
  \<comment> \<open>line 257: 'edit commit time'\<close>
  "txt_edit_commit_time =
    [CHR 0xE3, CHR 0x82, CHR 0xB3, CHR 0xE3, CHR 0x83, CHR 0x9F, CHR 0xE3, CHR 0x83, CHR 0x83,
    CHR 0xE3, CHR 0x83, CHR 0x88, CHR 0xE6, CHR 0x99, CHR 0x82, CHR 0xE9, CHR 0x96, CHR 0x93,
    CHR 0xE3, CHR 0x82, CHR 0x92, CHR 0xE7, CHR 0xB7, CHR 0xA8, CHR 0xE9, CHR 0x9B, CHR 0x86]"

definition txt_unavailable :: string where
  \<comment> \<open>treeDataProvider.ts lines 128, 134, 153: 'could not be obtained'\<close>
  "txt_unavailable =
    [CHR 0xE5, CHR 0x8F, CHR 0x96, CHR 0xE5, CHR 0xBE, CHR 0x97, CHR 0xE3, CHR 0x81, CHR 0xA7,
    CHR 0xE3, CHR 0x81, CHR 0x8D, CHR 0xE3, CHR 0x81, CHR 0xBE, CHR 0xE3, CHR 0x81, CHR 0x9B,
    CHR 0xE3, CHR 0x82, CHR 0x93, CHR 0xE3, CHR 0x81, CHR 0xA7, CHR 0xE3, CHR 0x81, CHR 0x97,
    CHR 0xE3, CHR 0x81, CHR 0x9F]"

definition txt_prompt :: string where
  \<comment> \<open>line 151: 'enter the new commit time (...), current time: '\<close>
  "txt_prompt =
    [CHR 0xE6, CHR 0x96, CHR 0xB0, CHR 0xE3, CHR 0x81, CHR 0x97, CHR 0xE3, CHR 0x81, CHR 0x84,
    CHR 0xE3, CHR 0x82, CHR 0xB3, CHR 0xE3, CHR 0x83, CHR 0x9F, CHR 0xE3, CHR 0x83, CHR 0x83,
    CHR 0xE3, CHR 0x83, CHR 0x88, CHR 0xE6, CHR 0x99, CHR 0x82, CHR 0xE9, CHR 0x96, CHR 0x93,
    CHR 0xE3, CHR 0x82, CHR 0x92, CHR 0xE5, CHR 0x85, CHR 0xA5, CHR 0xE5, CHR 0x8A, CHR 0x9B,
    CHR 0xE3, CHR 0x81, CHR 0x97, CHR 0xE3, CHR 0x81, CHR 0xA6, CHR 0xE3, CHR 0x81, CHR 0x8F,
    CHR 0xE3, CHR 0x81, CHR 0xA0, CHR 0xE3, CHR 0x81, CHR 0x95, CHR 0xE3, CHR 0x81, CHR 0x84,
    CHR 0x20, CHR 0x28, CHR 0x59, CHR 0x59, CHR 0x59, CHR 0x59, CHR 0x2D, CHR 0x4D, CHR 0x4D,
    CHR 0x2D, CHR 0x44, CHR 0x44, CHR 0x20, CHR 0x48, CHR 0x48, CHR 0x3A, CHR 0x4D, CHR 0x4D,
    CHR 0x3A, CHR 0x53, CHR 0x53, CHR 0x29, CHR 0x0A, CHR 0xE7, CHR 0x8F, CHR 0xBE, CHR 0xE5,
    CHR 0x9C, CHR 0xA8, CHR 0xE3, CHR 0x81, CHR 0xAE, CHR 0xE6, CHR 0x99, CHR 0x82, CHR 0xE9,
    CHR 0x96, CHR 0x93, CHR 0x3A, CHR 0x20]"

definition txt_commit_prefix :: string where
  \<comment> \<open>line 166: 'commit '\<close>
  "txt_commit_prefix =
    [CHR 0xE3, CHR 0x82, CHR 0xB3, CHR 0xE3, CHR 0x83, CHR 0x9F, CHR 0xE3, CHR 0x83, CHR 0x83,
    CHR 0xE3, CHR 0x83, CHR 0x88, CHR 0x20]"

definition txt_time_updated :: string where
  \<comment> \<open>line 166: ' time has been updated'\<close>
  "txt_time_updated =
    [CHR 0x20, CHR 0xE3, CHR 0x81, CHR 0xAE, CHR 0xE6, CHR 0x99, CHR 0x82, CHR 0xE9, CHR 0x96,
    CHR 0x93, CHR 0xE3, CHR 0x82, CHR 0x92, CHR 0xE6, CHR 0x9B, CHR 0xB4, CHR 0xE6, CHR 0x96,
    CHR 0xB0, CHR 0xE3, CHR 0x81, CHR 0x97, CHR 0xE3, CHR 0x81, CHR 0xBE, CHR 0xE3, CHR 0x81,
    CHR 0x97, CHR 0xE3, CHR 0x81, CHR 0x9F]"

definition txt_edit_error :: string where
  \<comment> \<open>line 168: 'commit time edit error: '\<close>
  "txt_edit_error =
    [CHR 0xE3, CHR 0x82, CHR 0xB3, CHR 0xE3, CHR 0x83, CHR 0x9F, CHR 0xE3, CHR 0x83, CHR 0x83,
    CHR 0xE3, CHR 0x83, CHR 0x88, CHR 0xE6, CHR 0x99, CHR 0x82, CHR 0xE9, CHR 0x96, CHR 0x93,
    CHR 0xE7, CHR 0xB7, CHR 0xA8, CHR 0xE9, CHR 0x9B, CHR 0x86, CHR 0xE3, CHR 0x82, CHR 0xA8,
    CHR 0xE3, CHR 0x83, CHR 0xA9, CHR 0xE3, CHR 0x83, CHR 0xBC, CHR 0x3A, CHR 0x20]"

definition txt_no_workspace_folder :: string where
  \<comment> \<open>commitEditor.ts line 36: 'workspace folder not found'\<close>
  "txt_no_workspace_folder =
    [CHR 0xE3, CHR 0x83, CHR 0xAF, CHR 0xE3, CHR 0x83, CHR 0xBC, CHR 0xE3, CHR 0x82, CHR 0xAF,
    CHR 0xE3, CHR 0x82, CHR 0xB9, CHR 0xE3, CHR 0x83, CHR 0x9A, CHR 0xE3, CHR 0x83, CHR 0xBC,
    CHR 0xE3, CHR 0x82, CHR 0xB9, CHR 0xE3, CHR 0x83, CHR 0x95, CHR 0xE3, CHR 0x82, CHR 0xA9,
    CHR 0xE3, CHR 0x83, CHR 0xAB, CHR 0xE3, CHR 0x83, CHR 0x80, CHR 0xE3, CHR 0x81, CHR 0x8C,
    CHR 0xE8, CHR 0xA6, CHR 0x8B, CHR 0xE3, CHR 0x81, CHR 0xA4, CHR 0xE3, CHR 0x81, CHR 0x8B,
    CHR 0xE3, CHR 0x82, CHR 0x8A, CHR 0xE3, CHR 0x81, CHR 0xBE, CHR 0xE3, CHR 0x81, CHR 0x9B,
    CHR 0xE3, CHR 0x82, CHR 0x93]"

definition txt_status_error :: string where
  \<comment> \<open>line 58: 'Git status error: '\<close>
  "txt_status_error =
    [CHR 0x47, CHR 0x69, CHR 0x74, CHR 0xE3, CHR 0x82, CHR 0xB9, CHR 0xE3, CHR 0x83, CHR 0x86,
    CHR 0xE3, CHR 0x83, CHR 0xBC, CHR 0xE3, CHR 0x82, CHR 0xBF, CHR 0xE3, CHR 0x82, CHR 0xB9,
    CHR 0xE3, CHR 0x82, CHR 0xA8, CHR 0xE3, CHR 0x83, CHR 0xA9, CHR 0xE3, CHR 0x83, CHR 0xBC,
    CHR 0x3A, CHR 0x20]"

definition txt_unknown_error :: string where
  \<comment> \<open>lines 58, 84, 100: 'unknown error'\<close>
  "txt_unknown_error =
    [CHR 0xE4, CHR 0xB8, CHR 0x8D, CHR 0xE6, CHR 0x98, CHR 0x8E, CHR 0xE3, CHR 0x81, CHR 0xAA,
    CHR 0xE3, CHR 0x82, CHR 0xA8, CHR 0xE3, CHR 0x83, CHR 0xA9, CHR 0xE3, CHR 0x83, CHR 0xBC]"

definition txt_commit_success :: string where
  \<comment> \<open>line 77: 'commit succeeded!'\<close>
  "txt_commit_success =
    [CHR 0xE3, CHR 0x82, CHR 0xB3, CHR 0xE3, CHR 0x83, CHR 0x9F, CHR 0xE3, CHR 0x83, CHR 0x83,
    CHR 0xE3, CHR 0x83, CHR 0x88, CHR 0xE3, CHR 0x81, CHR 0x8C, CHR 0xE6, CHR 0x88, CHR 0x90,
    CHR 0xE5, CHR 0x8A, CHR 0x9F, CHR 0xE3, CHR 0x81, CHR 0x97, CHR 0xE3, CHR 0x81, CHR 0xBE,
    CHR 0xE3, CHR 0x81, CHR 0x97, CHR 0xE3, CHR 0x81, CHR 0x9F, CHR 0xEF, CHR 0xBC, CHR 0x81]"

definition txt_commit_error :: string where
  \<comment> \<open>line 84: 'commit error: '\<close>
  "txt_commit_error =
    [CHR 0xE3, CHR 0x82, CHR 0xB3, CHR 0xE3, CHR 0x83, CHR 0x9F, CHR 0xE3, CHR 0x83, CHR 0x83,
    CHR 0xE3, CHR 0x83, CHR 0x88, CHR 0xE3, CHR 0x82, CHR 0xA8, CHR 0xE3, CHR 0x83, CHR 0xA9,
    CHR 0xE3, CHR 0x83, CHR 0xBC, CHR 0x3A, CHR 0x20]"

definition txt_push_success :: string where
  \<comment> \<open>line 95: 'push succeeded!'\<close>
  "txt_push_success =
    [CHR 0xE3, CHR 0x83, CHR 0x97, CHR 0xE3, CHR 0x83, CHR 0x83, CHR 0xE3, CHR 0x82, CHR 0xB7,
    CHR 0xE3, CHR 0x83, CHR 0xA5, CHR 0xE3, CHR 0x81, CHR 0x8C, CHR 0xE6, CHR 0x88, CHR 0x90,
    CHR 0xE5, CHR 0x8A, CHR 0x9F, CHR 0xE3, CHR 0x81, CHR 0x97, CHR 0xE3, CHR 0x81, CHR 0xBE,
    CHR 0xE3, CHR 0x81, CHR 0x97, CHR 0xE3, CHR 0x81, CHR 0x9F, CHR 0xEF, CHR 0xBC, CHR 0x81]"

definition txt_push_error :: string where
  \<comment> \<open>line 100: 'push error: '\<close>
  "txt_push_error =
    [CHR 0xE3, CHR 0x83, CHR 0x97, CHR 0xE3, CHR 0x83, CHR 0x83, CHR 0xE3, CHR 0x82, CHR 0xB7,
    CHR 0xE3, CHR 0x83, CHR 0xA5, CHR 0xE3, CHR 0x82, CHR 0xA8, CHR 0xE3, CHR 0x83, CHR 0xA9,
    CHR 0xE3, CHR 0x83, CHR 0xBC, CHR 0x3A, CHR 0x20]"

definition txt_enter_message :: string where
  \<comment> \<open>lines 335, 358: 'enter a commit message'\<close>
  "txt_enter_message =
    [CHR 0xE3, CHR 0x82, CHR 0xB3, CHR 0xE3, CHR 0x83, CHR 0x9F, CHR 0xE3, CHR 0x83, CHR 0x83,
    CHR 0xE3, CHR 0x83, CHR 0x88, CHR 0xE3, CHR 0x83, CHR 0xA1, CHR 0xE3, CHR 0x83, CHR 0x83,
    CHR 0xE3, CHR 0x82, CHR 0xBB, CHR 0xE3, CHR 0x83, CHR 0xBC, CHR 0xE3, CHR 0x82, CHR 0xB8,
    CHR 0xE3, CHR 0x82, CHR 0x92, CHR 0xE5, CHR 0x85, CHR 0xA5, CHR 0xE5, CHR 0x8A, CHR 0x9B,
    CHR 0xE3, CHR 0x81, CHR 0x97, CHR 0xE3, CHR 0x81, CHR 0xA6, CHR 0xE3, CHR 0x81, CHR 0x8F,
    CHR 0xE3, CHR 0x81, CHR 0xA0, CHR 0xE3, CHR 0x81, CHR 0x95, CHR 0xE3, CHR 0x81, CHR 0x84]"

definition txt_select_files :: string where
  \<comment> \<open>line 341: 'select the files to commit'\<close>
  "txt_select_files =
    [CHR 0xE3, CHR 0x82, CHR 0xB3, CHR 0xE3, CHR 0x83, CHR 0x9F, CHR 0xE3, CHR 0x83, CHR 0x83,
    CHR 0xE3, CHR 0x83, CHR 0x88, CHR 0xE3, CHR 0x81, CHR 0x99, CHR 0xE3, CHR 0x82, CHR 0x8B,
    CHR 0xE3, CHR 0x83, CHR 0x95, CHR 0xE3, CHR 0x82, CHR 0xA1, CHR 0xE3, CHR 0x82, CHR 0xA4,
    CHR 0xE3, CHR 0x83, CHR 0xAB, CHR 0xE3, CHR 0x82, CHR 0x92, CHR 0xE9, CHR 0x81, CHR 0xB8,
    CHR 0xE6, CHR 0x8A, CHR 0x9E, CHR 0xE3, CHR 0x81, CHR 0x97, CHR 0xE3, CHR 0x81, CHR 0xA6,
    CHR 0xE3, CHR 0x81, CHR 0x8F, CHR 0xE3, CHR 0x81, CHR 0xA0, CHR 0xE3, CHR 0x81, CHR 0x95,
    CHR 0xE3, CHR 0x81, CHR 0x84]"

definition txt_no_files :: string where
  \<comment> \<open>line 364: 'there are no files to commit'\<close>
  "txt_no_files =
    [CHR 0xE3, CHR 0x82, CHR 0xB3, CHR 0xE3, CHR 0x83, CHR 0x9F, CHR 0xE3, CHR 0x83, CHR 0x83,
    CHR 0xE3, CHR 0x83, CHR 0x88, CHR 0xE3, CHR 0x81, CHR 0x99, CHR 0xE3, CHR 0x82, CHR 0x8B,
    CHR 0xE3, CHR 0x83, CHR 0x95, CHR 0xE3, CHR 0x82, CHR 0xA1, CHR 0xE3, CHR 0x82, CHR 0xA4,
    CHR 0xE3, CHR 0x83, CHR 0xAB, CHR 0xE3, CHR 0x81, CHR 0x8C, CHR 0xE3, CHR 0x81, CHR 0x82,
    CHR 0xE3, CHR 0x82, CHR 0x8A, CHR 0xE3, CHR 0x81, CHR 0xBE, CHR 0xE3, CHR 0x81, CHR 0x9B,
    CHR 0xE3, CHR 0x82, CHR 0x93]"

text \<open>
  A thrown value. \<open>simple-git\<close> rejects with \<open>Error\<close> objects, and \<open>toISOString\<close> throws
  a \<open>RangeError\<close>; \<open>NonError\<close> is any other thrown value, with its string conversion.
\<close>

datatype js_error = Error string string | NonError string

fun instanceofError :: "js_error \<Rightarrow> bool" where
  "instanceofError (Error name msg) = True"
| "instanceofError (NonError s) = False"

fun error_message :: "js_error \<Rightarrow> string" where
  "error_message (Error name msg) = msg"
| "error_message (NonError s) = s"

text \<open>The conversion of \<open>${error}\<close> in a template literal (\<open>Error.prototype.toString\<close>).\<close>

fun error_toString :: "js_error \<Rightarrow> string" where
  "error_toString (Error name msg) =
     (if name = [] then msg else if msg = [] then name else name @ '': '' @ msg)"
| "error_toString (NonError s) = s"

text \<open>\<open>${n}\<close> for a non-negative integer: its decimal digits.\<close>

definition digit_char :: "nat \<Rightarrow> char" where
  "digit_char d = ''0123456789'' ! (d mod 10)"

fun string_of_nat :: "nat \<Rightarrow> string" where
  "string_of_nat n =
     (if n < 10 then [digit_char n] else string_of_nat (n div 10) @ [digit_char (n mod 10)])"

text \<open>\<open>${x}\<close> for a value of type \<open>string | null\<close>.\<close>

fun string_or_null :: "string option \<Rightarrow> string" where
  "string_or_null None = ''null''"
| "string_or_null (Some s) = s"

text \<open>
  Truthiness of a \<open>string | undefined\<close> value, as tested by \<open>if (x)\<close> and \<open>!x\<close>:
  \<open>undefined\<close> and the empty string are falsy.
\<close>

fun truthy :: "string option \<Rightarrow> bool" where
  "truthy None = False"
| "truthy (Some s) = (s \<noteq> [])"

text \<open>\<open>s.includes(t)\<close>: \<open>t\<close> occurs in \<open>s\<close> as a contiguous substring.\<close>

fun str_includes :: "string \<Rightarrow> string \<Rightarrow> bool" where
  "str_includes [] t = (t = [])"
| "str_includes (c # s) t = (take (length t) (c # s) = t \<or> str_includes s t)"

text \<open>\<open>s.substring(0, n)\<close> and \<open>s.slice(0, n)\<close> for \<open>n \<ge> 0\<close>.\<close>

definition substring0 :: "nat \<Rightarrow> string \<Rightarrow> string" where
  "substring0 n s = take n s"

text \<open>\<open>s.replace(a, b)\<close> with one-character strings: the first occurrence only.\<close>

fun replace_first :: "char \<Rightarrow> char \<Rightarrow> string \<Rightarrow> string" where
  "replace_first a b [] = []"
| "replace_first a b (c # s) = (if c = a then b # s else c # replace_first a b s)"

text \<open>
  The \<open>Date\<close> object of the runtime and \<open>String.prototype.trim\<close> (which strips Unicode
  white space) are not part of the repository; the uses the code makes of them are
  parameters: whether \<open>new Date(s)\<close> is a valid date, its \<open>toLocaleString('ja-JP', ...)\<close>
  (the flag says whether seconds are asked for; an invalid date gives the text
  \<open>Invalid Date\<close>, it does not throw), its \<open>toISOString()\<close>, which throws a \<open>RangeError\<close>
  on an invalid date, and \<open>s.trim()\<close>.
\<close>

record js_runtime =
  date_valid :: "string \<Rightarrow> bool"
  date_toLocaleString :: "bool \<Rightarrow> string \<Rightarrow> string"
  date_toISOString :: "string \<Rightarrow> string"
  str_trim :: "string \<Rightarrow> string"

definition toISOString :: "js_runtime \<Rightarrow> string \<Rightarrow> js_error + string" where
  "toISOString rt s =
     (if date_valid rt s then Inr (date_toISOString rt s)
      else Inl (Error ''RangeError'' ''Invalid time value''))"

section \<open>The version-control binding\<close>

text \<open>
  A commit as \<open>git.log\<close> returns it; the code reads \<open>hash\<close>, \<open>date\<close> and \<open>message\<close>.
\<close>

record commit =
  commit_hash :: string
  commit_date :: string
  commit_message :: string

text \<open>The fields of \<open>StatusResult\<close> that the code reads.\<close>

record status_result =
  st_current :: "string option"
  st_tracking :: "string option"
  st_modified :: "string list"
  st_staged :: "string list"
  st_not_added :: "string list"
  st_deleted :: "string list"
  st_renamed :: "(string \<times> string) list"

text \<open>
  The binding itself (\<open>simple-git\<close>) is an external library, so it is a parameter: one
  function per method the code calls, over a repository state \<open>'r\<close> that every call may
  change, each returning the awaited value or the error the promise rejects with.
  \<open>git_getRemotes\<close> gives the remotes (the code reads only how many there are),
  \<open>git_branch\<close> the \<open>all\<close> field of the branch summary, \<open>git_log\<close> its \<open>all\<close> field, in
  the order of the tool, and \<open>git_commit\<close> takes the message and the \<open>--date\<close> option.
\<close>

record 'r simple_git =
  git_status :: "'r \<Rightarrow> (js_error + status_result) \<times> 'r"
  git_getRemotes :: "'r \<Rightarrow> (js_error + string list) \<times> 'r"
  git_log :: "string list \<Rightarrow> 'r \<Rightarrow> (js_error + commit list) \<times> 'r"
  git_branch :: "string list \<Rightarrow> 'r \<Rightarrow> (js_error + string list) \<times> 'r"
  git_show :: "string list \<Rightarrow> 'r \<Rightarrow> (js_error + string) \<times> 'r"
  git_add :: "string list \<Rightarrow> 'r \<Rightarrow> (js_error + unit) \<times> 'r"
  git_commit :: "string \<Rightarrow> string option \<Rightarrow> 'r \<Rightarrow> (js_error + unit) \<times> 'r"
  git_push :: "'r \<Rightarrow> (js_error + unit) \<times> 'r"
  git_raw :: "string list \<Rightarrow> 'r \<Rightarrow> (js_error + string) \<times> 'r"

text \<open>The calls made to the binding, recorded in the order they are issued.\<close>

datatype git_call =
    CStatus
  | CGetRemotes
  | CLog "string list"
  | CBranch "string list"
  | CShow "string list"
  | CAdd "string list"
  | CCommit string "string option"
  | CPush
  | CRaw "string list"

text \<open>
  The queries of the resolver: the status, the list of remotes, a log query and the list of
  remote-tracking branches. Showing a commit, staging, committing, pushing and a raw
  command (the history rewrite) are not among them.
\<close>

fun resolver_query :: "git_call \<Rightarrow> bool" where
  "resolver_query CStatus = True"
| "resolver_query CGetRemotes = True"
| "resolver_query (CLog args) = True"
| "resolver_query (CBranch args) = (args = [''-r''])"
| "resolver_query (CShow args) = False"
| "resolver_query (CAdd files) = False"
| "resolver_query (CCommit msg d) = False"
| "resolver_query CPush = False"
| "resolver_query (CRaw args) = False"

text \<open>
  What the user sees: the messages and the input box of the editor window, the refresh of
  the tree, the messages the host posts to the page of the commit editor, and the
  messages that page shows (text and kind).
\<close>

datatype webview_message =
    StatusUpdate status_result
  | CommitSuccess string
  | PushSuccess string
  | ErrorMessage string

record input_box_options =
  ib_prompt :: string
  ib_placeHolder :: string
  ib_value :: string

datatype ui_event =
    ShowInformationMessage string
  | ShowErrorMessage string
  | ShowInputBox input_box_options
  | Refresh
  | PostMessage webview_message
  | ShowMessage string string

text \<open>
  The state a command runs in: the repository, the calls issued so far and the
  user-interface events so far.
\<close>

record 'r world =
  repo :: 'r
  calls :: "git_call list"
  ui :: "ui_event list"

definition call :: "git_call \<Rightarrow> ('r \<Rightarrow> 'a \<times> 'r) \<Rightarrow> 'r world \<Rightarrow> 'a \<times> 'r world" where
  "call c f w = (case f (repo w) of (x, r') \<Rightarrow> (x, w\<lparr>repo := r', calls := calls w @ [c]\<rparr>))"

definition emit :: "ui_event \<Rightarrow> 'r world \<Rightarrow> 'r world" where
  "emit e w = w\<lparr>ui := ui w @ [e]\<rparr>"

definition status :: "'r simple_git \<Rightarrow> 'r world \<Rightarrow> (js_error + status_result) \<times> 'r world" where
  "status git = call CStatus (git_status git)"

definition getRemotes :: "'r simple_git \<Rightarrow> 'r world \<Rightarrow> (js_error + string list) \<times> 'r world" where
  "getRemotes git = call CGetRemotes (git_getRemotes git)"

definition log :: "'r simple_git \<Rightarrow> string list \<Rightarrow> 'r world \<Rightarrow> (js_error + commit list) \<times> 'r world" where
  "log git args = call (CLog args) (git_log git args)"

definition branch :: "'r simple_git \<Rightarrow> string list \<Rightarrow> 'r world \<Rightarrow> (js_error + string list) \<times> 'r world" where
  "branch git args = call (CBranch args) (git_branch git args)"

section \<open>The tree view\<close>

datatype collapsible_state = CollapsibleNone | Collapsed | Expanded

record vscode_command =
  cmd_command :: string
  cmd_title :: string
  cmd_arguments :: "string list"

text \<open>
  A tree item, with the five parameters of the constructor of \<open>GitTreeItem\<close>; the tooltip,
  the description and the icon are computed from them and are left out.
\<close>

record git_tree_item =
  label :: string
  collapsibleState :: collapsible_state
  contextValue :: string
  command :: "vscode_command option"
  commitTime :: "string option"

definition GitTreeItem ::
  "string \<Rightarrow> collapsible_state \<Rightarrow> string \<Rightarrow> vscode_command option \<Rightarrow> string option \<Rightarrow> git_tree_item" where
  "GitTreeItem l s c cmd t =
     \<lparr>label = l, collapsibleState = s, contextValue = c, command = cmd, commitTime = t\<rparr>"

text \<open>
  The chain of comparisons against the remote, \<open>getChildren\<close> lines 88 to 112 and, word for
  word the same, \<open>getChildrenForElement\<close> lines 216 to 236: \<open>origin/main\<close>, on an error
  \<open>origin/master\<close>, on an error the first remote-tracking branch whose name includes
  \<open>origin/\<close>, and in the \<open>catch\<close> of that third attempt the last ten commits. The result
  is the final value of the variable (\<open>unpushedCommits\<close>, \<open>commits\<close>), which starts as the
  empty array and stays so when \<open>find\<close> gives \<open>undefined\<close> (or a falsy name), or the error
  that leaves the chain.
\<close>

definition remoteChain :: "'r simple_git \<Rightarrow> 'r world \<Rightarrow> (js_error + commit list) \<times> 'r world" where
  "remoteChain git w0 =
     (case log git [''origin/main..HEAD''] w0 of
        (Inr logMain, w1) \<Rightarrow> (Inr logMain, w1)
      | (Inl _, w1) \<Rightarrow>
          (case log git [''origin/master..HEAD''] w1 of
             (Inr logMaster, w2) \<Rightarrow> (Inr logMaster, w2)
           | (Inl _, w2) \<Rightarrow>
               (case (case branch git [''-r''] w2 of
                        (Inl e, w3) \<Rightarrow> (Inl e, w3)
                      | (Inr branches, w3) \<Rightarrow>
                          (case find (\<lambda>b. str_includes b ''origin/'') branches of
                             None \<Rightarrow> (Inr [], w3)
                           | Some defaultBranch \<Rightarrow>
                               if defaultBranch \<noteq> []
                               then log git [defaultBranch @ ''..HEAD''] w3
                               else (Inr [], w3))) of
                  (Inr commits, w4) \<Rightarrow> (Inr commits, w4)
                | (Inl _, w4) \<Rightarrow> log git [''--oneline'', ''-10''] w4)))"

text \<open>
  \<open>getChildren\<close> lines 82 to 147: the items pushed for the unpushed commits, none or one
  group item that carries the number of commits. An error that leaves the chain, or the
  list of remotes, or the query for the last ten commits, is caught at line 132, where the
  last five commits are asked for; an error of that query is caught at line 144. The
  \<open>console.log\<close> of the two \<open>catch\<close> blocks, here and in the listing, is not recorded.
\<close>

definition countItem :: "string \<Rightarrow> commit list \<Rightarrow> git_tree_item list" where
  "countItem txt cs =
     (if length cs > 0
      then [GitTreeItem (txt @ string_of_nat (length cs) @ '')'') Collapsed ''unpushed-commits''
              None None]
      else [])"

definition unpushedCommitsGroup :: "'r simple_git \<Rightarrow> 'r world \<Rightarrow> git_tree_item list \<times> 'r world" where
  "unpushedCommitsGroup git w0 =
     (case (case getRemotes git w0 of
              (Inl e, w1) \<Rightarrow> (Inl e, w1)
            | (Inr remotes, w1) \<Rightarrow>
                if length remotes > 0
                then (case remoteChain git w1 of
                        (Inl e, w2) \<Rightarrow> (Inl e, w2)
                      | (Inr unpushedCommits, w2) \<Rightarrow>
                          (Inr (countItem txt_unpushed_commits unpushedCommits), w2))
                else (case log git [''--oneline'', ''-10''] w1 of
                        (Inl e, w2) \<Rightarrow> (Inl e, w2)
                      | (Inr allCommits, w2) \<Rightarrow>
                          (Inr (countItem txt_latest_commits allCommits), w2))) of
        (Inr pushed, w3) \<Rightarrow> (pushed, w3)
      | (Inl error, w3) \<Rightarrow>
          (case log git [''--oneline'', ''-5''] w3 of
             (Inr allCommits, w4) \<Rightarrow> (countItem txt_local_commits allCommits, w4)
           | (Inl logError, w4) \<Rightarrow> ([], w4)))"

text \<open>
  \<open>getChildrenForElement\<close> lines 209 to 266, the case \<open>unpushed-commits\<close>: the commits,
  each as a tree item whose command carries the hash and the date. An error that leaves
  the \<open>try\<close> block is caught at line 263, where the empty array is returned.
\<close>

definition commitItem :: "js_runtime \<Rightarrow> commit \<Rightarrow> git_tree_item" where
  "commitItem rt c =
     GitTreeItem (substring0 7 (commit_hash c) @ '' '' @ commit_message c) CollapsibleNone
       ''unpushed-commit''
       (Some \<lparr>cmd_command = ''git-commit-manager.editCommitDate'',
              cmd_title = txt_edit_commit_time,
              cmd_arguments = [commit_hash c, commit_date c]\<rparr>)
       (Some (date_toLocaleString rt False (commit_date c)))"

definition unpushedCommits ::
  "js_runtime \<Rightarrow> 'r simple_git \<Rightarrow> 'r world \<Rightarrow> git_tree_item list \<times> 'r world" where
  "unpushedCommits rt git w0 =
     (case (case getRemotes git w0 of
              (Inl e, w1) \<Rightarrow> (Inl e, w1)
            | (Inr remotes, w1) \<Rightarrow>
                if length remotes > 0 then remoteChain git w1
                else log git [''--oneline'', ''-10''] w1) of
        (Inr commits, w2) \<Rightarrow> (map (commitItem rt) commits, w2)
      | (Inl error, w2) \<Rightarrow> ([], w2))"

definition fileItem :: "string \<Rightarrow> string \<Rightarrow> string \<Rightarrow> string \<Rightarrow> git_tree_item" where
  "fileItem ctx title kind file =
     GitTreeItem file CollapsibleNone ctx
       (Some \<lparr>cmd_command = ''git-commit-manager.showFileDiff'', cmd_title = title,
              cmd_arguments = [file, kind]\<rparr>)
       None"

text \<open>
  \<open>getChildrenForElement\<close>: the status is awaited first, outside every \<open>try\<close>, so its
  error rejects the promise the function returns.
\<close>

record 'r tree_provider =
  git :: "'r simple_git"
  workspaceRoot :: "string option"

definition GitTreeViewProvider ::
  "(string option \<Rightarrow> 'r simple_git) \<Rightarrow> string option \<Rightarrow> 'r tree_provider" where
  \<comment> \<open>the constructor, lines 11 to 19; \<open>simpleGit\<close> is the factory of the binding\<close>
  "GitTreeViewProvider simpleGit workspaceFolder =
     (case workspaceFolder of
        Some fsPath \<Rightarrow> \<lparr>git = simpleGit (Some fsPath), workspaceRoot = Some fsPath\<rparr>
      | None \<Rightarrow> \<lparr>git = simpleGit None, workspaceRoot = None\<rparr>)"

definition getChildrenForElement ::
  "'r tree_provider \<Rightarrow> js_runtime \<Rightarrow> git_tree_item \<Rightarrow> 'r world \<Rightarrow>
     (js_error + git_tree_item list) \<times> 'r world" where
  "getChildrenForElement this rt element w0 =
     (case status (git this) w0 of
        (Inl e, w1) \<Rightarrow> (Inl e, w1)
      | (Inr st, w1) \<Rightarrow>
          if contextValue element = ''modified-group''
          then (Inr (map (fileItem ''modified-file'' txt_show_changes ''modified'')
                       (st_modified st)), w1)
          else if contextValue element = ''staged-group''
          then (Inr (map (fileItem ''staged-file'' txt_show_changes ''staged'')
                       (st_staged st)), w1)
          else if contextValue element = ''untracked-group''
          then (Inr (map (fileItem ''untracked-file'' txt_show_new_file ''untracked'')
                       (st_not_added st)), w1)
          else if contextValue element = ''unpushed-commits''
          then (case unpushedCommits rt (git this) w1 of (items, w2) \<Rightarrow> (Inr items, w2))
          else (Inr [], w1))"

text \<open>
  \<open>getChildren\<close>: without a workspace one informative item; for the root the status
  items, the group of unpushed commits and the action item, or one error item when the
  status fails; for an element, \<open>getChildrenForElement\<close>.
\<close>

definition groupItem :: "string \<Rightarrow> string \<Rightarrow> string list \<Rightarrow> git_tree_item list" where
  "groupItem txt ctx files =
     (if length files > 0
      then [GitTreeItem (txt @ string_of_nat (length files) @ '')'') Collapsed ctx None None]
      else [])"

definition getChildren ::
  "'r tree_provider \<Rightarrow> js_runtime \<Rightarrow> git_tree_item option \<Rightarrow> 'r world \<Rightarrow>
     (js_error + git_tree_item list) \<times> 'r world" where
  "getChildren this rt element w0 =
     (if \<not> truthy (workspaceRoot this)
      then (Inr [GitTreeItem txt_open_workspace CollapsibleNone ''info'' None None], w0)
      else case element of
        None \<Rightarrow>
          (case status (git this) w0 of
             (Inl error, w1) \<Rightarrow>
               (Inr [GitTreeItem txt_no_repository CollapsibleNone ''error'' None None], w1)
           | (Inr st, w1) \<Rightarrow>
               (case unpushedCommitsGroup (git this) w1 of
                  (pushed, w2) \<Rightarrow>
                    (Inr ([GitTreeItem (txt_branch @ string_or_null (st_current st))
                             CollapsibleNone ''branch'' None None]
                          @ (if truthy (st_tracking st)
                             then [GitTreeItem (txt_tracking @ string_or_null (st_tracking st))
                                     CollapsibleNone ''tracking'' None None]
                             else [])
                          @ groupItem txt_modified_files ''modified-group'' (st_modified st)
                          @ groupItem txt_staged_files ''staged-group'' (st_staged st)
                          @ groupItem txt_untracked_files ''untracked-group'' (st_not_added st)
                          @ pushed
                          @ [GitTreeItem txt_new_commit CollapsibleNone ''action''
                               (Some \<lparr>cmd_command = ''git-commit-manager.openCommitEditor'',
                                      cmd_title = txt_new_commit, cmd_arguments = []\<rparr>)
                               None]), w2)))
      | Some el \<Rightarrow> getChildrenForElement this rt el w0)"

section \<open>The command that edits the time of a commit\<close>

definition gitShow :: "'r simple_git \<Rightarrow> string list \<Rightarrow> 'r world \<Rightarrow> (js_error + string) \<times> 'r world" where
  "gitShow g args = call (CShow args) (git_show g args)"

definition raw :: "'r simple_git \<Rightarrow> string list \<Rightarrow> 'r world \<Rightarrow> (js_error + string) \<times> 'r world" where
  "raw g args = call (CRaw args) (git_raw g args)"

text \<open>
  The arguments of the history rewrite, lines 159 to 163 of \<open>treeDataProvider.ts\<close>: the
  environment filter compares \<open>$GIT_COMMIT\<close> with the hash and exports both dates.
\<close>

definition envFilter :: "string \<Rightarrow> string \<Rightarrow> string" where
  "envFilter commitHash newDate =
     ''if [ $GIT_COMMIT = '' @ commitHash @ '' ]; then export GIT_AUTHOR_DATE='' @ [CHR 0x22]
     @ newDate @ [CHR 0x22] @ ''; export GIT_COMMITTER_DATE='' @ [CHR 0x22] @ newDate
     @ [CHR 0x22] @ ''; fi''"

definition filterBranchArgs :: "string \<Rightarrow> string \<Rightarrow> string list" where
  "filterBranchArgs commitHash newDate =
     [''filter-branch'', ''--env-filter'', envFilter commitHash newDate, ''--'', ''--all'']"

text \<open>
  Lines 122 to 130: the current date of the commit is the argument when it is given and
  not empty, otherwise the trimmed output of \<open>git show\<close>, or a fixed text when that fails.
\<close>

definition currentCommitDate ::
  "js_runtime \<Rightarrow> 'r simple_git \<Rightarrow> string \<Rightarrow> string option \<Rightarrow> 'r world \<Rightarrow> string \<times> 'r world" where
  "currentCommitDate rt g commitHash currentDate w0 =
     (if truthy currentDate
      then (case currentDate of Some d \<Rightarrow> (d, w0) | None \<Rightarrow> ([], w0))
      else (case gitShow g [''--format=%ci'', ''-s'', commitHash] w0 of
              (Inr commitInfo, w1) \<Rightarrow> (str_trim rt commitInfo, w1)
            | (Inl _, w1) \<Rightarrow> (txt_unavailable, w1)))"

text \<open>
  Lines 132 to 155: the options of the input box. The date shown in the prompt is the
  locale string of the current date; the initial value is its ISO string cut to seconds,
  and \<open>toISOString\<close> throws on a date that does not parse.
\<close>

definition inputBoxOptions :: "js_runtime \<Rightarrow> string \<Rightarrow> js_error + input_box_options" where
  "inputBoxOptions rt current =
     (let usable = (current \<noteq> [] \<and> current \<noteq> txt_unavailable);
          displayDate = (if usable then date_toLocaleString rt True current else current)
      in case (if usable
               then (case toISOString rt current of
                       Inl e \<Rightarrow> Inl e
                     | Inr isoString \<Rightarrow>
                         Inr (replace_first CHR ''T'' CHR '' '' (substring0 19 isoString)))
               else Inr []) of
           Inl e \<Rightarrow> Inl e
         | Inr v \<Rightarrow>
             Inr \<lparr>ib_prompt = txt_prompt @ displayDate,
                  ib_placeHolder = ''2024-01-01 12:00:00'',
                  ib_value = v\<rparr>)"

text \<open>
  The body of the \<open>try\<close> block after the check of the workspace folder, lines 119 to 166.
  \<open>showInputBox\<close> is the user: the text entered for the given options, or \<open>None\<close> when the
  box is dismissed.
\<close>

definition editCommitDateTry ::
  "js_runtime \<Rightarrow> 'r simple_git \<Rightarrow> (input_box_options \<Rightarrow> string option) \<Rightarrow> string \<Rightarrow>
     string option \<Rightarrow> 'r world \<Rightarrow> (js_error + unit) \<times> 'r world" where
  "editCommitDateTry rt g showInputBox commitHash currentDate w0 =
     (case currentCommitDate rt g commitHash currentDate w0 of
        (current, w1) \<Rightarrow>
          (case inputBoxOptions rt current of
             Inl e \<Rightarrow> (Inl e, w1)
           | Inr opts \<Rightarrow>
               (let w2 = emit (ShowInputBox opts) w1
                in case showInputBox opts of
                     None \<Rightarrow> (Inr (), w2)
                   | Some newDate \<Rightarrow>
                       if newDate = [] then (Inr (), w2)
                       else (case raw g (filterBranchArgs commitHash newDate) w2 of
                               (Inl e, w3) \<Rightarrow> (Inl e, w3)
                             | (Inr _, w3) \<Rightarrow>
                                 (Inr (),
                                  emit (ShowInformationMessage
                                          (txt_commit_prefix @ substring0 7 commitHash
                                           @ txt_time_updated))
                                    (emit Refresh w3))))))"

text \<open>
  The command \<open>git-commit-manager.editCommitDate\<close>, lines 114 to 170: nothing without a
  workspace folder; otherwise the binding for the folder, the body above, and every error
  of the body shown as an error message that ends with the error's text.
\<close>

definition editCommitDate ::
  "js_runtime \<Rightarrow> (string option \<Rightarrow> 'r simple_git) \<Rightarrow> (input_box_options \<Rightarrow> string option) \<Rightarrow>
     string option \<Rightarrow> string \<Rightarrow> string option \<Rightarrow> 'r world \<Rightarrow> 'r world" where
  "editCommitDate rt simpleGit showInputBox workspaceFolder commitHash currentDate w0 =
     (case workspaceFolder of
        None \<Rightarrow> w0
      | Some fsPath \<Rightarrow>
          (case editCommitDateTry rt (simpleGit (Some fsPath)) showInputBox commitHash
                  currentDate w0 of
             (Inr _, w1) \<Rightarrow> w1
           | (Inl error, w1) \<Rightarrow>
               emit (ShowErrorMessage (txt_edit_error @ error_toString error)) w1))"

section \<open>The commit editor\<close>

definition add :: "'r simple_git \<Rightarrow> string list \<Rightarrow> 'r world \<Rightarrow> (js_error + unit) \<times> 'r world" where
  "add g files = call (CAdd files) (git_add g files)"

definition commit ::
  "'r simple_git \<Rightarrow> string \<Rightarrow> string option \<Rightarrow> 'r world \<Rightarrow> (js_error + unit) \<times> 'r world" where
  "commit g msg d = call (CCommit msg d) (git_commit g msg d)"

definition push :: "'r simple_git \<Rightarrow> 'r world \<Rightarrow> (js_error + unit) \<times> 'r world" where
  "push g = call CPush (git_push g)"

text \<open>\<open>error instanceof Error ? error.message : '...'\<close>, the text of the three handlers.\<close>

definition messageOf :: "js_error \<Rightarrow> string" where
  "messageOf error = (if instanceofError error then error_message error else txt_unknown_error)"

text \<open>
  The provider keeps the binding in a field, made for no directory by the constructor and
  made again for the workspace folder by every \<open>handleGetStatus\<close>.
\<close>

record 'r commit_editor =
  ce_git :: "'r simple_git"

definition CommitEditorProvider :: "(string option \<Rightarrow> 'r simple_git) \<Rightarrow> 'r commit_editor" where
  "CommitEditorProvider simpleGit = \<lparr>ce_git = simpleGit None\<rparr>"

definition handleGetStatus ::
  "(string option \<Rightarrow> 'r simple_git) \<Rightarrow> string option \<Rightarrow> 'r commit_editor \<Rightarrow> 'r world \<Rightarrow>
     'r commit_editor \<times> 'r world" where
  "handleGetStatus simpleGit workspaceFolder this w0 =
     (case workspaceFolder of
        None \<Rightarrow> (this, emit (PostMessage (ErrorMessage txt_no_workspace_folder)) w0)
      | Some fsPath \<Rightarrow>
          (let this' = this\<lparr>ce_git := simpleGit (Some fsPath)\<rparr>
           in case status (ce_git this') w0 of
                (Inr st, w1) \<Rightarrow> (this', emit (PostMessage (StatusUpdate st)) w1)
              | (Inl error, w1) \<Rightarrow>
                  (this', emit (PostMessage (ErrorMessage (txt_status_error @ messageOf error)))
                            w1)))"

text \<open>
  \<open>handleCommit\<close>, lines 63 to 87: the files are staged when there are any, then the
  commit is made, with the \<open>--date\<close> option when a date is given.
\<close>

definition handleCommit ::
  "(string option \<Rightarrow> 'r simple_git) \<Rightarrow> string option \<Rightarrow> 'r commit_editor \<Rightarrow> string \<Rightarrow>
     string list \<Rightarrow> string option \<Rightarrow> 'r world \<Rightarrow> 'r commit_editor \<times> 'r world" where
  "handleCommit simpleGit workspaceFolder this commitMessage files commitDate w0 =
     (case (case (if length files > 0 then add (ce_git this) files w0 else (Inr (), w0)) of
              (Inl e, w1) \<Rightarrow> (Inl e, w1)
            | (Inr _, w1) \<Rightarrow>
                if truthy commitDate then commit (ce_git this) commitMessage commitDate w1
                else commit (ce_git this) commitMessage None w1) of
        (Inr _, w2) \<Rightarrow>
          handleGetStatus simpleGit workspaceFolder this
            (emit (PostMessage (CommitSuccess txt_commit_success)) w2)
      | (Inl error, w2) \<Rightarrow>
          (this, emit (PostMessage (ErrorMessage (txt_commit_error @ messageOf error))) w2))"

definition handlePush :: "'r commit_editor \<Rightarrow> 'r world \<Rightarrow> 'r commit_editor \<times> 'r world" where
  "handlePush this w0 =
     (case push (ce_git this) w0 of
        (Inr _, w1) \<Rightarrow> (this, emit (PostMessage (PushSuccess txt_push_success)) w1)
      | (Inl error, w1) \<Rightarrow>
          (this, emit (PostMessage (ErrorMessage (txt_push_error @ messageOf error))) w1))"

text \<open>The messages the webview posts to the host, and the handler of lines 15 to 27.\<close>

datatype host_message =
    GetStatus
  | Commit string "string list" "string option"
  | Push

definition onDidReceiveMessage ::
  "(string option \<Rightarrow> 'r simple_git) \<Rightarrow> string option \<Rightarrow> host_message \<Rightarrow> 'r commit_editor \<Rightarrow>
     'r world \<Rightarrow> 'r commit_editor \<times> 'r world" where
  "onDidReceiveMessage simpleGit workspaceFolder message this w =
     (case message of
        GetStatus \<Rightarrow> handleGetStatus simpleGit workspaceFolder this w
      | Commit commitMessage files commitDate \<Rightarrow>
          handleCommit simpleGit workspaceFolder this commitMessage files commitDate w
      | Push \<Rightarrow> handlePush this w)"

text \<open>
  The script of the webview, lines 322 to 376 of \<open>commitEditor.ts\<close>. The page is the
  commit message, the date field and the check boxes of the files in document order, each
  with its value and whether it is checked. A click on one of the two commit buttons
  either shows a message in the page or posts a commit message to the host.
\<close>

record page =
  commit_message_value :: string
  commit_date_value :: string
  checkboxes :: "(string \<times> bool) list"

definition getSelectedFiles :: "page \<Rightarrow> string list" where
  "getSelectedFiles d = map fst (filter snd (checkboxes d))"

definition getAllFiles :: "page \<Rightarrow> string list" where
  "getAllFiles d = map fst (checkboxes d)"

datatype webview_action = Show_Message string string | Post_Message host_message

definition commitBtnClick :: "js_runtime \<Rightarrow> page \<Rightarrow> webview_action" where
  "commitBtnClick rt d =
     (let commitMessage = str_trim rt (commit_message_value d)
      in if commitMessage = [] then Show_Message txt_enter_message ''error''
         else let selectedFiles = getSelectedFiles d
              in if length selectedFiles = 0 then Show_Message txt_select_files ''error''
                 else let commitDate = commit_date_value d
                      in Post_Message
                           (Commit commitMessage selectedFiles
                              (if commitDate \<noteq> [] then Some commitDate else None)))"

definition commitAllBtnClick :: "js_runtime \<Rightarrow> page \<Rightarrow> webview_action" where
  "commitAllBtnClick rt d =
     (let commitMessage = str_trim rt (commit_message_value d)
      in if commitMessage = [] then Show_Message txt_enter_message ''error''
         else let allFiles = getAllFiles d
              in if length allFiles = 0 then Show_Message txt_no_files ''error''
                 else let commitDate = commit_date_value d
                      in Post_Message
                           (Commit commitMessage allFiles
                              (if commitDate \<noteq> [] then Some commitDate else None)))"

text \<open>
  What a click does in the end: a message shown in the page, or the posted message handled
  by the host (\<open>vscode.postMessage\<close> in the page arrives at \<open>onDidReceiveMessage\<close>).
\<close>

definition perform ::
  "(string option \<Rightarrow> 'r simple_git) \<Rightarrow> string option \<Rightarrow> webview_action \<Rightarrow> 'r commit_editor \<Rightarrow>
     'r world \<Rightarrow> 'r commit_editor \<times> 'r world" where
  "perform simpleGit workspaceFolder action this w =
     (case action of
        Show_Message message kind \<Rightarrow> (this, emit (ShowMessage message kind) w)
      | Post_Message message \<Rightarrow> onDidReceiveMessage simpleGit workspaceFolder message this w)"

section \<open>A small repository for concrete runs\<close>

text \<open>
  A stand-in for the external tool, used only to run the definitions above on concrete
  inputs. The repository holds its remotes and its remote-tracking branches (\<open>None\<close> when
  listing them fails), the ranges that resolve with the commits of each, the local
  history, newest first, the error of a history rewrite, if it is to fail, and the number
  of writing commands it has run. A range that is not listed does not resolve: the log
  query fails, as the tool does on an unknown revision.

  The log of the stand-in answers as the binding does. The binding puts its own
  \<open>--pretty=format:\<close> option in front of the arguments of the caller and cuts the output
  of the tool at the marks of that format. A range query is answered with the commits of
  the range, newest first. With \<open>--oneline\<close> among the arguments, which comes later and
  wins, the tool prints one line per commit, the abbreviated hash and the subject, with
  none of the marks: the binding returns a single entry, whose hash is the whole text
  and whose date and message are empty. On a history without commits the tool fails.
\<close>

record test_repo =
  tr_remotes :: "string list option"
  tr_remote_branches :: "string list option"
  tr_ranges :: "(string \<times> commit list) list"
  tr_history :: "commit list"
  tr_raw_error :: "js_error option"
  tr_writes :: nat

definition test_status :: status_result where
  "test_status =
     \<lparr>st_current = Some ''main'', st_tracking = None, st_modified = [''a.ts''],
      st_staged = [], st_not_added = [], st_deleted = [], st_renamed = []\<rparr>"

definition oneline :: "commit \<Rightarrow> string" where
  "oneline c = take 7 (commit_hash c) @ '' '' @ commit_message c"

fun oneline_text :: "commit list \<Rightarrow> string" where
  "oneline_text [] = []"
| "oneline_text [c] = oneline c"
| "oneline_text (c # d # cs) = oneline c @ [CHR 0x0A] @ oneline_text (d # cs)"

definition unparsed :: "string \<Rightarrow> commit" where
  "unparsed text = \<lparr>commit_hash = text, commit_date = [], commit_message = []\<rparr>"

definition oneline_answer :: "commit list \<Rightarrow> js_error + commit list" where
  "oneline_answer cs =
     (if cs = []
      then Inl (Error ''Error'' ''fatal: your current branch does not have any commits yet'')
      else Inr [unparsed (oneline_text cs)])"

definition test_log :: "string list \<Rightarrow> test_repo \<Rightarrow> js_error + commit list" where
  "test_log args r =
     (if args = [''--oneline'', ''-10''] then oneline_answer (take 10 (tr_history r))
      else if args = [''--oneline'', ''-5''] then oneline_answer (take 5 (tr_history r))
      else case args of
             [revs] \<Rightarrow>
               (case map_of (tr_ranges r) revs of
                  Some cs \<Rightarrow> Inr cs
                | None \<Rightarrow> Inl (Error ''Error'' ''fatal: bad revision''))
           | _ \<Rightarrow> Inl (Error ''Error'' ''fatal: bad arguments''))"

definition written :: "test_repo \<Rightarrow> test_repo" where
  "written r = r\<lparr>tr_writes := Suc (tr_writes r)\<rparr>"

definition test_git :: "test_repo simple_git" where
  "test_git =
     \<lparr>git_status = (\<lambda>r. (Inr test_status, r)),
      git_getRemotes =
        (\<lambda>r. (case tr_remotes r of
                 None \<Rightarrow> Inl (Error ''Error'' ''fatal: not a git repository'')
               | Some rs \<Rightarrow> Inr rs, r)),
      git_log = (\<lambda>args r. (test_log args r, r)),
      git_branch =
        (\<lambda>args r. (case tr_remote_branches r of
                      None \<Rightarrow> Inl (Error ''Error'' ''fatal: cannot list branches'')
                    | Some bs \<Rightarrow> Inr bs, r)),
      git_show = (\<lambda>args r. (Inr ''2024-05-01 10:00:00 +0900'', r)),
      git_add = (\<lambda>files r. (Inr (), written r)),
      git_commit = (\<lambda>msg d r. (Inr (), written r)),
      git_push = (\<lambda>r. (Inr (), written r)),
      git_raw =
        (\<lambda>args r. (case tr_raw_error r of
                      Some e \<Rightarrow> (Inl e, r)
                    | None \<Rightarrow> (Inr [], written r)))\<rparr>"

definition test_rt :: js_runtime where
  "test_rt =
     \<lparr>date_valid = (\<lambda>s. s \<noteq> [] \<and> s \<noteq> ''yesterday''),
      date_toLocaleString =
        (\<lambda>seconds s. if s \<noteq> [] \<and> s \<noteq> ''yesterday'' then s else ''Invalid Date''),
      date_toISOString = (\<lambda>s. ''2024-05-01T01:00:00.000Z''),
      str_trim = (\<lambda>s. rev (dropWhile (\<lambda>c. c = CHR '' '') (rev (dropWhile (\<lambda>c. c = CHR '' '') s))))\<rparr>"

definition c1 :: commit where
  "c1 = \<lparr>commit_hash = ''1111111aaaa'', commit_date = ''2024-05-01 10:00:00 +0900'',
         commit_message = ''first''\<rparr>"

definition c2 :: commit where
  "c2 = \<lparr>commit_hash = ''2222222bbbb'', commit_date = ''2024-05-02 10:00:00 +0900'',
         commit_message = ''second''\<rparr>"

definition c3 :: commit where
  "c3 = \<lparr>commit_hash = ''3333333cccc'', commit_date = ''2024-05-03 10:00:00 +0900'',
         commit_message = ''third''\<rparr>"

definition c4 :: commit where
  "c4 = \<lparr>commit_hash = ''4444444dddd'', commit_date = ''2024-05-04 10:00:00 +0900'',
         commit_message = ''fourth''\<rparr>"

definition start :: "'r \<Rightarrow> 'r world" where
  "start r = \<lparr>repo = r, calls = [], ui = []\<rparr>"

text \<open>A clone of \<open>origin\<close> whose \<open>main\<close> is two commits behind the local branch.\<close>

definition repo_main :: test_repo where
  "repo_main =
     \<lparr>tr_remotes = Some [''origin''], tr_remote_branches = Some [''origin/main''],
      tr_ranges = [(''origin/main..HEAD'', [c4, c3])], tr_history = [c4, c3, c2, c1],
      tr_raw_error = None, tr_writes = 0\<rparr>"

text \<open>A clone of \<open>origin\<close> with no \<open>main\<close>, whose \<open>master\<close> is three commits behind.\<close>

definition repo_master :: test_repo where
  "repo_master =
     \<lparr>tr_remotes = Some [''origin''], tr_remote_branches = Some [''origin/master''],
      tr_ranges = [(''origin/master..HEAD'', [c4, c3, c2])], tr_history = [c4, c3, c2, c1],
      tr_raw_error = None, tr_writes = 0\<rparr>"

text \<open>A repository with no remote.\<close>

definition repo_local :: test_repo where
  "repo_local =
     \<lparr>tr_remotes = Some [], tr_remote_branches = Some [], tr_ranges = [],
      tr_history = [c4, c3, c2, c1], tr_raw_error = None, tr_writes = 0\<rparr>"

text \<open>
  A repository whose only remote is called \<open>upstream\<close>: neither \<open>origin/main\<close> nor
  \<open>origin/master\<close> resolves, and no remote-tracking branch has \<open>origin/\<close> in its name.
\<close>

definition repo_upstream :: test_repo where
  "repo_upstream =
     \<lparr>tr_remotes = Some [''upstream''], tr_remote_branches = Some [''upstream/main''],
      tr_ranges = [(''upstream/main..HEAD'', [c4])], tr_history = [c4, c3, c2, c1],
      tr_raw_error = None, tr_writes = 0\<rparr>"

text \<open>A repository where listing the remotes fails and the log of the history works.\<close>

definition repo_broken :: test_repo where
  "repo_broken =
     \<lparr>tr_remotes = None, tr_remote_branches = None, tr_ranges = [],
      tr_history = [c2, c1], tr_raw_error = None, tr_writes = 0\<rparr>"

text \<open>A repository whose history rewrite fails with the text of the tool.\<close>

definition repo_reject :: test_repo where
  "repo_reject =
     \<lparr>tr_remotes = Some [''origin''], tr_remote_branches = Some [''origin/main''],
      tr_ranges = [(''origin/main..HEAD'', [c4, c3])], tr_history = [c4, c3, c2, c1],
      tr_raw_error = Some (Error ''Error'' ''fatal: invalid date format: yesterday''),
      tr_writes = 0\<rparr>"

text \<open>The providers and the pages of the concrete runs.\<close>

definition test_simpleGit :: "string option \<Rightarrow> test_repo simple_git" where
  "test_simpleGit dir = test_git"

definition test_provider :: "test_repo tree_provider" where
  "test_provider = GitTreeViewProvider test_simpleGit (Some ''/work'')"

definition test_editor :: "test_repo commit_editor" where
  "test_editor = CommitEditorProvider test_simpleGit"

definition unpushed_group :: git_tree_item where
  "unpushed_group =
     GitTreeItem (txt_unpushed_commits @ ''3)'') Collapsed ''unpushed-commits'' None None"

definition page_unchecked :: page where
  "page_unchecked =
     \<lparr>commit_message_value = ''fix typo'', commit_date_value = [],
      checkboxes = [(''a.ts'', False), (''b.ts'', False)]\<rparr>"

definition page_no_files :: page where
  "page_no_files =
     \<lparr>commit_message_value = ''fix typo'', commit_date_value = [], checkboxes = []\<rparr>"

text \<open>The user who enters a fixed text in the input box, and the user who dismisses it.\<close>

definition enters :: "string \<Rightarrow> input_box_options \<Rightarrow> string option" where
  "enters s opts = Some s"

definition dismisses :: "input_box_options \<Rightarrow> string option" where
  "dismisses opts = None"

text \<open>
  The input box for the commit \<open>c4\<close>: its date in the prompt, and as the initial value the
  ISO string of the stand-in runtime cut to seconds.
\<close>

definition shown_options :: input_box_options where
  "shown_options =
     \<lparr>ib_prompt = txt_prompt @ ''2024-05-04 10:00:00 +0900'',
      ib_placeHolder = ''2024-01-01 12:00:00'',
      ib_value = ''2024-05-01 01:00:00''\<rparr>"

section \<open>Runs that only query\<close>

text \<open>
  A binding is quiet when its four queries leave the repository as it is. A run from \<open>w\<close>
  to \<open>w'\<close> only queries when the calls it adds are all queries of the resolver, it shows
  nothing to the user, and with a quiet binding the repository is the same afterwards.
\<close>

definition quiet :: "'r simple_git \<Rightarrow> bool" where
  "quiet g \<longleftrightarrow>
     (\<forall>r. snd (git_status g r) = r) \<and> (\<forall>r. snd (git_getRemotes g r) = r)
     \<and> (\<forall>args r. snd (git_log g args r) = r) \<and> (\<forall>r. snd (git_branch g [''-r''] r) = r)"

definition only_queries :: "'r simple_git \<Rightarrow> 'r world \<Rightarrow> 'r world \<Rightarrow> bool" where
  "only_queries g w w' \<longleftrightarrow>
     (\<exists>cs. calls w' = calls w @ cs \<and> list_all resolver_query cs) \<and> ui w' = ui w
     \<and> (quiet g \<longrightarrow> repo w' = repo w)"

section \<open>Facts about the binding's calls\<close>

lemma call_eq:
  "f (repo w) = (x, r') \<Longrightarrow> call c f w = (x, w\<lparr>repo := r', calls := calls w @ [c]\<rparr>)"
  by (simp add: call_def)

lemma log_eq:
  "git_log g args (repo w) = (x, r') \<Longrightarrow>
   log g args w = (x, w\<lparr>repo := r', calls := calls w @ [CLog args]\<rparr>)"
  by (simp add: log_def call_eq)

lemma getRemotes_eq:
  "git_getRemotes g (repo w) = (x, r') \<Longrightarrow>
   getRemotes g w = (x, w\<lparr>repo := r', calls := calls w @ [CGetRemotes]\<rparr>)"
  by (simp add: getRemotes_def call_eq)

lemma branch_eq:
  "git_branch g args (repo w) = (x, r') \<Longrightarrow>
   branch g args w = (x, w\<lparr>repo := r', calls := calls w @ [CBranch args]\<rparr>)"
  by (simp add: branch_def call_eq)

section \<open>The unpushed commits\<close>

text \<open>
  Claim C1. In a repository with at least one remote where the log query over
  \<open>origin/main..HEAD\<close> completes without error, the resolver returns exactly the commits of
  that query, in the order the tool gives them (newest first), as tree items, and the
  group item counts them; the only calls are the list of remotes and that one query, so
  no fallback is attempted, also when the query gives no commit. What the range denotes
  (the commits reachable from \<open>HEAD\<close> and not from \<open>origin/main\<close>) is the tool's.
\<close>

theorem resolve_origin_main:
  assumes "git_getRemotes g (repo w) = (Inr remotes, r1)"
    and "remotes \<noteq> []"
    and "git_log g [''origin/main..HEAD''] r1 = (Inr cs, r2)"
  shows "unpushedCommits rt g w =
           (map (commitItem rt) cs,
            w\<lparr>repo := r2, calls := calls w @ [CGetRemotes, CLog [''origin/main..HEAD'']]\<rparr>)
         \<and> unpushedCommitsGroup g w =
           (countItem txt_unpushed_commits cs,
            w\<lparr>repo := r2, calls := calls w @ [CGetRemotes, CLog [''origin/main..HEAD'']]\<rparr>)"
  using assms
  by (simp add: unpushedCommits_def unpushedCommitsGroup_def remoteChain_def
      getRemotes_eq log_eq)

theorem resolve_origin_main_witness:
  "git_getRemotes test_git (repo (start repo_main)) = (Inr [''origin''], repo_main)
   \<and> [''origin''] \<noteq> []
   \<and> git_log test_git [''origin/main..HEAD''] repo_main = (Inr [c4, c3], repo_main)
   \<and> unpushedCommits test_rt test_git (start repo_main) =
       ([commitItem test_rt c4, commitItem test_rt c3],
        \<lparr>repo = repo_main, calls = [CGetRemotes, CLog [''origin/main..HEAD'']], ui = []\<rparr>)
   \<and> unpushedCommitsGroup test_git (start repo_main) =
       (countItem txt_unpushed_commits [c4, c3],
        \<lparr>repo = repo_main, calls = [CGetRemotes, CLog [''origin/main..HEAD'']], ui = []\<rparr>)"
proof -
  have h1: "git_getRemotes test_git (repo (start repo_main)) = (Inr [''origin''], repo_main)"
    by (simp add: test_git_def start_def repo_main_def)
  have h2: "[''origin''] \<noteq> []"
    by simp
  have h3: "git_log test_git [''origin/main..HEAD''] repo_main = (Inr [c4, c3], repo_main)"
    by (simp add: test_git_def test_log_def repo_main_def)
  show ?thesis
    using h1 h2 h3 resolve_origin_main [OF h1 h2 h3, of test_rt]
    by (simp add: start_def)
qed

text \<open>
  Claim C6. In a repository with a remote where the query against \<open>origin/main\<close> raises an
  error and the query against \<open>origin/master\<close> succeeds, the resolver returns exactly the
  commits of \<open>origin/master..HEAD\<close>, in the order of the tool, and asks nothing further.
  The concrete run below has \<open>origin/main\<close> absent and \<open>HEAD\<close> three commits ahead of
  \<open>origin/master\<close>: the three commits come back, newest first.
\<close>

theorem resolve_origin_master:
  assumes "git_getRemotes g (repo w) = (Inr remotes, r1)"
    and "remotes \<noteq> []"
    and "git_log g [''origin/main..HEAD''] r1 = (Inl e, r2)"
    and "git_log g [''origin/master..HEAD''] r2 = (Inr cs, r3)"
  shows "unpushedCommits rt g w =
           (map (commitItem rt) cs,
            w\<lparr>repo := r3,
              calls := calls w @ [CGetRemotes, CLog [''origin/main..HEAD''],
                                  CLog [''origin/master..HEAD'']]\<rparr>)
         \<and> unpushedCommitsGroup g w =
           (countItem txt_unpushed_commits cs,
            w\<lparr>repo := r3,
              calls := calls w @ [CGetRemotes, CLog [''origin/main..HEAD''],
                                  CLog [''origin/master..HEAD'']]\<rparr>)"
  using assms
  by (simp add: unpushedCommits_def unpushedCommitsGroup_def remoteChain_def
      getRemotes_eq log_eq)

theorem resolve_origin_master_witness:
  "git_getRemotes test_git (repo (start repo_master)) = (Inr [''origin''], repo_master)
   \<and> [''origin''] \<noteq> []
   \<and> git_log test_git [''origin/main..HEAD''] repo_master =
       (Inl (Error ''Error'' ''fatal: bad revision''), repo_master)
   \<and> git_log test_git [''origin/master..HEAD''] repo_master = (Inr [c4, c3, c2], repo_master)
   \<and> unpushedCommits test_rt test_git (start repo_master) =
       ([commitItem test_rt c4, commitItem test_rt c3, commitItem test_rt c2],
        \<lparr>repo = repo_master,
         calls = [CGetRemotes, CLog [''origin/main..HEAD''], CLog [''origin/master..HEAD'']],
         ui = []\<rparr>)
   \<and> unpushedCommitsGroup test_git (start repo_master) =
       (countItem txt_unpushed_commits [c4, c3, c2],
        \<lparr>repo = repo_master,
         calls = [CGetRemotes, CLog [''origin/main..HEAD''], CLog [''origin/master..HEAD'']],
         ui = []\<rparr>)"
proof -
  have h1: "git_getRemotes test_git (repo (start repo_master)) = (Inr [''origin''], repo_master)"
    by (simp add: test_git_def start_def repo_master_def)
  have h2: "[''origin''] \<noteq> []"
    by simp
  have h3: "git_log test_git [''origin/main..HEAD''] repo_master =
              (Inl (Error ''Error'' ''fatal: bad revision''), repo_master)"
    by (simp add: test_git_def test_log_def repo_master_def)
  have h4: "git_log test_git [''origin/master..HEAD''] repo_master =
              (Inr [c4, c3, c2], repo_master)"
    by (simp add: test_git_def test_log_def repo_master_def)
  show ?thesis
    using h1 h2 h3 h4 resolve_origin_master [OF h1 h2 h3 h4, of test_rt]
    by (simp add: start_def)
qed

text \<open>
  What the code does in a repository with no remote: it asks for the list of remotes and
  then makes the one query \<open>['--oneline', '-10']\<close>; no comparison against a remote branch
  is issued. The listing is the answer of the binding to that query, entry by entry, and
  the group counts its entries. When the query fails the listing is empty, and the group
  is counted from the query \<open>['--oneline', '-5']\<close>.
\<close>

lemma no_remote_answer_passed_on:
  assumes "git_getRemotes g (repo w) = (Inr [], r1)"
    and "git_log g [''--oneline'', ''-10''] r1 = (res, r2)"
  shows "unpushedCommits rt g w =
           ((case res of Inr cs \<Rightarrow> map (commitItem rt) cs | Inl e \<Rightarrow> []),
            w\<lparr>repo := r2, calls := calls w @ [CGetRemotes, CLog [''--oneline'', ''-10'']]\<rparr>)
         \<and> unpushedCommitsGroup g w =
           (case res of
              Inr cs \<Rightarrow>
                (countItem txt_latest_commits cs,
                 w\<lparr>repo := r2,
                   calls := calls w @ [CGetRemotes, CLog [''--oneline'', ''-10'']]\<rparr>)
            | Inl e \<Rightarrow>
                (case git_log g [''--oneline'', ''-5''] r2 of
                   (res5, r3) \<Rightarrow>
                     ((case res5 of Inr cs \<Rightarrow> countItem txt_local_commits cs | Inl e5 \<Rightarrow> []),
                      w\<lparr>repo := r3,
                        calls := calls w @ [CGetRemotes, CLog [''--oneline'', ''-10''],
                                            CLog [''--oneline'', ''-5'']]\<rparr>)))"
  using assms
  by (auto simp: unpushedCommits_def unpushedCommitsGroup_def getRemotes_eq log_eq
      split: sum.splits prod.splits)

text \<open>
  Claim C5, at a repository with no remote and a history of four commits. The claim, and
  the comments of the code at this branch, say the most recent commits, at most ten, are
  returned: here the four commits, newest first. The code passes \<open>--oneline\<close> to the
  binding, whose answer to that is one entry made of the whole one-line output: the
  listing is a single item, labelled with the abbreviated hash of the newest commit and
  nothing else, with no valid date, and the group counts one commit. No comparison
  against a remote branch is made.
\<close>

theorem no_remote_lists_one_entry:
  "git_getRemotes test_git repo_local = (Inr [], repo_local)
   \<and> tr_history repo_local = [c4, c3, c2, c1]
   \<and> git_log test_git [''--oneline'', ''-10''] repo_local =
       (Inr [unparsed (oneline_text [c4, c3, c2, c1])], repo_local)
   \<and> unpushedCommits test_rt test_git (start repo_local) =
       ([GitTreeItem ''4444444 '' CollapsibleNone ''unpushed-commit''
           (Some \<lparr>cmd_command = ''git-commit-manager.editCommitDate'',
                  cmd_title = txt_edit_commit_time,
                  cmd_arguments = [oneline_text [c4, c3, c2, c1], []]\<rparr>)
           (Some ''Invalid Date'')],
        \<lparr>repo = repo_local, calls = [CGetRemotes, CLog [''--oneline'', ''-10'']], ui = []\<rparr>)
   \<and> fst (unpushedCommits test_rt test_git (start repo_local)) \<noteq>
       [commitItem test_rt c4, commitItem test_rt c3, commitItem test_rt c2,
        commitItem test_rt c1]
   \<and> unpushedCommitsGroup test_git (start repo_local) =
       ([GitTreeItem (txt_latest_commits @ ''1)'') Collapsed ''unpushed-commits'' None None],
        \<lparr>repo = repo_local, calls = [CGetRemotes, CLog [''--oneline'', ''-10'']], ui = []\<rparr>)"
  by (simp add: unpushedCommits_def unpushedCommitsGroup_def getRemotes_def log_def call_def
      test_git_def test_log_def oneline_answer_def unparsed_def start_def repo_local_def
      commitItem_def countItem_def digit_char_def substring0_def GitTreeItem_def test_rt_def
      oneline_def c4_def)

text \<open>
  What the chain does when both queries against \<open>origin\<close> fail and the list of
  remote-tracking branches, which succeeds, has no name that includes \<open>origin/\<close>: the
  variable keeps its initial value, the empty array, and the query for the last ten
  commits, which sits in the \<open>catch\<close> of this attempt, is not issued.
\<close>

lemma chain_without_origin_branch:
  assumes "git_getRemotes g (repo w) = (Inr remotes, r1)"
    and "remotes \<noteq> []"
    and "git_log g [''origin/main..HEAD''] r1 = (Inl e1, r2)"
    and "git_log g [''origin/master..HEAD''] r2 = (Inl e2, r3)"
    and "git_branch g [''-r''] r3 = (Inr branches, r4)"
    and "find (\<lambda>b. str_includes b ''origin/'') branches = None"
  shows "unpushedCommits rt g w =
           ([], w\<lparr>repo := r4,
                  calls := calls w @ [CGetRemotes, CLog [''origin/main..HEAD''],
                                      CLog [''origin/master..HEAD''], CBranch [''-r'']]\<rparr>)"
    and "unpushedCommitsGroup g w =
           ([], w\<lparr>repo := r4,
                  calls := calls w @ [CGetRemotes, CLog [''origin/main..HEAD''],
                                      CLog [''origin/master..HEAD''], CBranch [''-r'']]\<rparr>)"
  using assms
  by (simp_all add: unpushedCommits_def unpushedCommitsGroup_def remoteChain_def
      getRemotes_eq log_eq branch_eq countItem_def)

lemmas run_defs =
  unpushedCommits_def unpushedCommitsGroup_def remoteChain_def getRemotes_def log_def
  branch_def status_def call_def test_git_def test_log_def start_def

text \<open>
  Claim C2, at a repository whose only remote is \<open>upstream\<close>. The conditions of the claim
  hold: there is a remote, the queries against \<open>origin/main\<close> and \<open>origin/master\<close> fail,
  the remote-tracking branches are listed and none includes \<open>origin/\<close>. The query for the
  last ten commits would be answered, the history has four commits; the resolver does not
  issue it and returns no commit, in the listing and in the group alike.
\<close>

theorem no_origin_branch_returns_nothing:
  "git_getRemotes test_git repo_upstream = (Inr [''upstream''], repo_upstream)
   \<and> git_log test_git [''origin/main..HEAD''] repo_upstream =
       (Inl (Error ''Error'' ''fatal: bad revision''), repo_upstream)
   \<and> git_log test_git [''origin/master..HEAD''] repo_upstream =
       (Inl (Error ''Error'' ''fatal: bad revision''), repo_upstream)
   \<and> git_branch test_git [''-r''] repo_upstream = (Inr [''upstream/main''], repo_upstream)
   \<and> find (\<lambda>b. str_includes b ''origin/'') [''upstream/main''] = None
   \<and> tr_history repo_upstream = [c4, c3, c2, c1]
   \<and> git_log test_git [''--oneline'', ''-10''] repo_upstream =
       (Inr [unparsed (oneline_text [c4, c3, c2, c1])], repo_upstream)
   \<and> unpushedCommits test_rt test_git (start repo_upstream) =
       ([], \<lparr>repo = repo_upstream,
             calls = [CGetRemotes, CLog [''origin/main..HEAD''],
                      CLog [''origin/master..HEAD''], CBranch [''-r'']],
             ui = []\<rparr>)
   \<and> unpushedCommitsGroup test_git (start repo_upstream) =
       ([], \<lparr>repo = repo_upstream,
             calls = [CGetRemotes, CLog [''origin/main..HEAD''],
                      CLog [''origin/master..HEAD''], CBranch [''-r'']],
             ui = []\<rparr>)"
  by (simp add: run_defs repo_upstream_def countItem_def oneline_answer_def)

text \<open>
  What the two copies do when an error leaves the \<open>try\<close> block, here the error of the list
  of remotes: the group asks for the last five commits and counts them (no item when that
  query fails too); the listing returns the empty array at once and asks for nothing.
  Neither lets the error out: both results are plain lists of items.
\<close>

lemma group_after_top_level_error:
  assumes "git_getRemotes g (repo w) = (Inl e, r1)"
    and "git_log g [''--oneline'', ''-5''] r1 = (res, r2)"
  shows "unpushedCommitsGroup g w =
           ((case res of Inr cs \<Rightarrow> countItem txt_local_commits cs | Inl e5 \<Rightarrow> []),
            w\<lparr>repo := r2, calls := calls w @ [CGetRemotes, CLog [''--oneline'', ''-5'']]\<rparr>)"
  using assms
  by (auto simp: unpushedCommitsGroup_def getRemotes_eq log_eq split: sum.splits)

lemma listing_after_top_level_error:
  assumes "git_getRemotes g (repo w) = (Inl e, r1)"
  shows "unpushedCommits rt g w = ([], w\<lparr>repo := r1, calls := calls w @ [CGetRemotes]\<rparr>)"
  using assms
  by (simp add: unpushedCommits_def getRemotes_eq)

text \<open>
  How the two blocks sit in the functions of the provider: opening the group of unpushed
  commits gives the listing, once the status has been read; the root never rejects, and
  after a status it carries the group between the status items and the action item.
\<close>

lemma getChildrenForElement_unpushed_commits:
  assumes "git_status (git this) (repo w) = (Inr st, r0)"
    and "contextValue element = ''unpushed-commits''"
    and "unpushedCommits rt (git this) (w\<lparr>repo := r0, calls := calls w @ [CStatus]\<rparr>) =
           (items, w')"
  shows "getChildrenForElement this rt element w = (Inr items, w')"
  using assms
  by (simp add: getChildrenForElement_def status_def call_eq)

lemma getChildren_root_never_rejects:
  "\<exists>items. fst (getChildren this rt None w) = Inr items"
  by (auto simp: getChildren_def split: prod.splits sum.splits)

lemma getChildren_root_group:
  assumes "truthy (workspaceRoot this)"
    and "git_status (git this) (repo w) = (Inr st, r0)"
    and "unpushedCommitsGroup (git this) (w\<lparr>repo := r0, calls := calls w @ [CStatus]\<rparr>) =
           (pushed, w')"
  shows "\<exists>before action. getChildren this rt None w = (Inr (before @ pushed @ [action]), w')"
  using assms
  by (simp add: getChildren_def status_def call_eq)

text \<open>
  The status, which \<open>getChildrenForElement\<close> awaits before the \<open>switch\<close>, is outside the
  \<open>try\<close> block: its error is the result of the function.
\<close>

lemma getChildrenForElement_status_error:
  assumes "git_status (git this) (repo w) = (Inl e, r1)"
  shows "getChildrenForElement this rt element w =
           (Inl e, w\<lparr>repo := r1, calls := calls w @ [CStatus]\<rparr>)"
  using assms
  by (simp add: getChildrenForElement_def status_def call_eq)

text \<open>
  Claim C7, at a repository where the list of remotes fails and the log of the history
  works, with two commits. The group falls back to the query for the last five commits
  and shows a group item, counting the one entry the binding answers with; the listing,
  which is what the user gets on opening that group, returns no commit and does not
  issue the query for the last five.
\<close>

theorem listing_skips_last_five:
  "git_getRemotes test_git repo_broken =
     (Inl (Error ''Error'' ''fatal: not a git repository''), repo_broken)
   \<and> tr_history repo_broken = [c2, c1]
   \<and> git_log test_git [''--oneline'', ''-5''] repo_broken =
       (Inr [unparsed (oneline_text [c2, c1])], repo_broken)
   \<and> unpushedCommitsGroup test_git (start repo_broken) =
       ([GitTreeItem (txt_local_commits @ ''1)'') Collapsed ''unpushed-commits'' None None],
        \<lparr>repo = repo_broken, calls = [CGetRemotes, CLog [''--oneline'', ''-5'']], ui = []\<rparr>)
   \<and> unpushedCommits test_rt test_git (start repo_broken) =
       ([], \<lparr>repo = repo_broken, calls = [CGetRemotes], ui = []\<rparr>)"
  by (simp add: run_defs repo_broken_def countItem_def digit_char_def oneline_answer_def)

section \<open>The resolver only reads\<close>

lemma only_queries_refl: "only_queries g w w"
  by (simp add: only_queries_def)

lemma only_queries_trans:
  assumes "only_queries g w w1" and "only_queries g w1 w2"
  shows "only_queries g w w2"
proof -
  obtain cs where a: "calls w1 = calls w @ cs" "list_all resolver_query cs"
    using assms(1) by (auto simp: only_queries_def)
  obtain ds where b: "calls w2 = calls w1 @ ds" "list_all resolver_query ds"
    using assms(2) by (auto simp: only_queries_def)
  have "calls w2 = calls w @ (cs @ ds) \<and> list_all resolver_query (cs @ ds)"
    using a b by simp
  then have "\<exists>es. calls w2 = calls w @ es \<and> list_all resolver_query es"
    by blast
  then show ?thesis
    using assms by (simp add: only_queries_def)
qed

lemma only_queries_status: "only_queries g w (snd (status g w))"
  by (simp add: only_queries_def quiet_def status_def call_def split: prod.splits)
     (metis snd_conv)

lemma only_queries_getRemotes: "only_queries g w (snd (getRemotes g w))"
  by (simp add: only_queries_def quiet_def getRemotes_def call_def split: prod.splits)
     (metis snd_conv)

lemma only_queries_log: "only_queries g w (snd (log g args w))"
  by (simp add: only_queries_def quiet_def log_def call_def split: prod.splits)
     (metis snd_conv)

lemma only_queries_branch: "only_queries g w (snd (branch g [''-r''] w))"
  by (simp add: only_queries_def quiet_def branch_def call_def split: prod.splits)
     (metis snd_conv)

text \<open>Each query extends a run that only queries.\<close>

lemma after_status:
  "status g w1 = (x, w2) \<Longrightarrow> only_queries g w w1 \<Longrightarrow> only_queries g w w2"
  using only_queries_trans [OF _ only_queries_status, of g w w1] by simp

lemma after_getRemotes:
  "getRemotes g w1 = (x, w2) \<Longrightarrow> only_queries g w w1 \<Longrightarrow> only_queries g w w2"
  using only_queries_trans [OF _ only_queries_getRemotes, of g w w1] by simp

lemma after_log:
  "log g args w1 = (x, w2) \<Longrightarrow> only_queries g w w1 \<Longrightarrow> only_queries g w w2"
  using only_queries_trans [OF _ only_queries_log, of g w w1 args] by simp

lemma after_branch:
  "branch g [''-r''] w1 = (x, w2) \<Longrightarrow> only_queries g w w1 \<Longrightarrow> only_queries g w w2"
  using only_queries_trans [OF _ only_queries_branch, of g w w1] by simp

lemma after_remoteChain:
  "remoteChain g w1 = (x, w2) \<Longrightarrow> only_queries g w w1 \<Longrightarrow> only_queries g w w2"
  unfolding remoteChain_def
  by (auto split: prod.splits sum.splits option.splits if_splits)
     (blast intro: after_log after_branch)+

lemma after_unpushedCommits:
  "unpushedCommits rt g w1 = (x, w2) \<Longrightarrow> only_queries g w w1 \<Longrightarrow> only_queries g w w2"
  unfolding unpushedCommits_def
  by (auto split: prod.splits sum.splits if_splits)
     (blast intro: after_getRemotes after_log after_remoteChain)+

lemma after_unpushedCommitsGroup:
  "unpushedCommitsGroup g w1 = (x, w2) \<Longrightarrow> only_queries g w w1 \<Longrightarrow> only_queries g w w2"
  unfolding unpushedCommitsGroup_def
  by (auto split: prod.splits sum.splits if_splits)
     (blast intro: after_getRemotes after_log after_remoteChain)+

lemma after_getChildrenForElement:
  "getChildrenForElement this rt element w1 = (x, w2) \<Longrightarrow> only_queries (git this) w w1 \<Longrightarrow>
   only_queries (git this) w w2"
  unfolding getChildrenForElement_def
  by (auto split: prod.splits sum.splits if_splits)
     (blast intro: after_status after_unpushedCommits)+

lemma after_getChildren:
  "getChildren this rt element w1 = (x, w2) \<Longrightarrow> only_queries (git this) w w1 \<Longrightarrow>
   only_queries (git this) w w2"
  unfolding getChildren_def
  by (auto split: prod.splits sum.splits option.splits if_splits)
     (blast intro: after_status after_unpushedCommitsGroup after_getChildrenForElement)+

text \<open>
  Claim C8. Whatever the repository, the provider and the element asked for, the calls
  that \<open>getChildren\<close> adds (for the root, with the group of unpushed commits, and for an
  element, through \<open>getChildrenForElement\<close>, with their listing) are all queries: the
  status, the list of remotes, log queries and the list of remote-tracking branches;
  nothing is staged, committed, pushed or rewritten. If these four queries of the binding
  leave the repository as it is, the repository is the same after the run.
\<close>

theorem resolver_only_queries:
  "(\<exists>cs. calls (snd (getChildren this rt element w)) = calls w @ cs
         \<and> list_all resolver_query cs)
   \<and> ((\<forall>r. snd (git_status (git this) r) = r)
       \<and> (\<forall>r. snd (git_getRemotes (git this) r) = r)
       \<and> (\<forall>args r. snd (git_log (git this) args r) = r)
       \<and> (\<forall>r. snd (git_branch (git this) [''-r''] r) = r)
       \<longrightarrow> repo (snd (getChildren this rt element w)) = repo w)"
proof -
  have "only_queries (git this) w (snd (getChildren this rt element w))"
    by (rule after_getChildren [OF prod.collapse [symmetric] only_queries_refl])
  then show ?thesis
    by (simp add: only_queries_def quiet_def)
qed

theorem resolver_only_queries_witness:
  "(\<forall>r. snd (git_status (git test_provider) r) = r)
   \<and> (\<forall>r. snd (git_getRemotes (git test_provider) r) = r)
   \<and> (\<forall>args r. snd (git_log (git test_provider) args r) = r)
   \<and> (\<forall>r. snd (git_branch (git test_provider) [''-r''] r) = r)
   \<and> repo (snd (getChildren test_provider test_rt (Some unpushed_group) (start repo_master)))
       = repo (start repo_master)
   \<and> (\<exists>cs. calls (snd (getChildren test_provider test_rt (Some unpushed_group)
                         (start repo_master)))
            = calls (start repo_master) @ cs
          \<and> list_all resolver_query cs)"
proof -
  have h: "(\<forall>r. snd (git_status (git test_provider) r) = r)
           \<and> (\<forall>r. snd (git_getRemotes (git test_provider) r) = r)
           \<and> (\<forall>args r. snd (git_log (git test_provider) args r) = r)
           \<and> (\<forall>r. snd (git_branch (git test_provider) [''-r''] r) = r)"
    by (simp add: test_provider_def GitTreeViewProvider_def test_simpleGit_def test_git_def)
  show ?thesis
    using h resolver_only_queries [of test_provider test_rt "Some unpushed_group"
        "start repo_master"]
    by blast
qed

text \<open>The run of the witness, evaluated: the status and the three calls of the chain.\<close>

lemma listing_of_repo_master:
  "getChildren test_provider test_rt (Some unpushed_group) (start repo_master) =
     (Inr [commitItem test_rt c4, commitItem test_rt c3, commitItem test_rt c2],
      \<lparr>repo = repo_master,
       calls = [CStatus, CGetRemotes, CLog [''origin/main..HEAD''],
                CLog [''origin/master..HEAD'']],
       ui = []\<rparr>)"
  by (simp add: getChildren_def getChildrenForElement_def run_defs repo_master_def
      test_provider_def GitTreeViewProvider_def test_simpleGit_def unpushed_group_def
      GitTreeItem_def)

section \<open>The commit editor\<close>

text \<open>
  Claim C3. A request to commit with an empty list of selected files is rejected in the
  page, before anything is posted to the host: the click on the commit button with no
  check box checked leaves the provider, the repository and the calls as they are (no
  \<open>add\<close>, no \<open>commit\<close>), and shows one message of kind \<open>error\<close>, the request for a commit
  message when the message is blank and the request to select files otherwise. The button
  that commits all files does the same when the page lists no file.
\<close>

theorem empty_selection_rejected:
  "(getSelectedFiles d = [] \<longrightarrow>
      perform simpleGit workspaceFolder (commitBtnClick rt d) this w =
        (this, w\<lparr>ui := ui w @ [ShowMessage (if str_trim rt (commit_message_value d) = []
                                              then txt_enter_message else txt_select_files)
                                  ''error'']\<rparr>))
   \<and> (getAllFiles d = [] \<longrightarrow>
      perform simpleGit workspaceFolder (commitAllBtnClick rt d) this w =
        (this, w\<lparr>ui := ui w @ [ShowMessage (if str_trim rt (commit_message_value d) = []
                                              then txt_enter_message else txt_no_files)
                                  ''error'']\<rparr>))"
  by (simp add: perform_def commitBtnClick_def commitAllBtnClick_def emit_def Let_def)

theorem empty_selection_rejected_witness:
  "getSelectedFiles page_unchecked = []
   \<and> perform test_simpleGit (Some ''/work'') (commitBtnClick test_rt page_unchecked)
       test_editor (start repo_main) =
       (test_editor,
        \<lparr>repo = repo_main, calls = [], ui = [ShowMessage txt_select_files ''error'']\<rparr>)
   \<and> getAllFiles page_no_files = []
   \<and> perform test_simpleGit (Some ''/work'') (commitAllBtnClick test_rt page_no_files)
       test_editor (start repo_main) =
       (test_editor,
        \<lparr>repo = repo_main, calls = [], ui = [ShowMessage txt_no_files ''error'']\<rparr>)"
proof -
  have h1: "getSelectedFiles page_unchecked = []"
    by (simp add: getSelectedFiles_def page_unchecked_def)
  have h2: "getAllFiles page_no_files = []"
    by (simp add: getAllFiles_def page_no_files_def)
  have t1: "str_trim test_rt (commit_message_value page_unchecked) \<noteq> []"
    by (simp add: test_rt_def page_unchecked_def)
  have t2: "str_trim test_rt (commit_message_value page_no_files) \<noteq> []"
    by (simp add: test_rt_def page_no_files_def)
  show ?thesis
    using h1 h2 t1 t2
      empty_selection_rejected [of page_unchecked test_simpleGit "Some ''/work''" test_rt
        test_editor "start repo_main"]
      empty_selection_rejected [of page_no_files test_simpleGit "Some ''/work''" test_rt
        test_editor "start repo_main"]
    by (simp add: start_def)
qed

text \<open>
  The handler of the host has no such check of its own: called with no files it skips
  \<open>add\<close> and still issues the commit. The page never posts such a message.
\<close>

lemma handleCommit_without_files:
  "\<exists>cs. calls (snd (handleCommit simpleGit workspaceFolder this commitMessage [] commitDate w)) =
          calls w @ CCommit commitMessage (if truthy commitDate then commitDate else None) # cs"
  by (auto simp: handleCommit_def handleGetStatus_def commit_def status_def call_def emit_def
      Let_def split: prod.splits sum.splits option.splits)

lemma posted_files_not_empty:
  "commitBtnClick rt d = Post_Message (Commit m files cd) \<Longrightarrow> files \<noteq> []"
  "commitAllBtnClick rt d = Post_Message (Commit m files cd) \<Longrightarrow> files \<noteq> []"
  by (auto simp: commitBtnClick_def commitAllBtnClick_def Let_def split: if_splits)

section \<open>Editing the time of a commit\<close>

text \<open>
  Claim C4. With a workspace folder open, once the input box has been shown and the user
  has entered a non-empty text, the command issues exactly one raw command after what it
  did to find the current date (nothing, or one \<open>git show\<close> when no date came with the
  command): \<open>filter-branch\<close> with an environment filter that compares \<open>$GIT_COMMIT\<close> with
  the hash and, inside the \<open>then\<close>, exports \<open>GIT_AUTHOR_DATE\<close> and \<open>GIT_COMMITTER_DATE\<close>
  set to the text entered, over \<open>--all\<close>.
\<close>

theorem rewrite_request:
  assumes "currentCommitDate rt (simpleGit (Some fsPath)) commitHash currentDate w = (current, w1)"
    and "inputBoxOptions rt current = Inr opts"
    and "showInputBox opts = Some newDate"
    and "newDate \<noteq> []"
  shows "calls (editCommitDate rt simpleGit showInputBox (Some fsPath) commitHash currentDate w) =
           calls w1 @
           [CRaw [''filter-branch'', ''--env-filter'',
                  ''if [ $GIT_COMMIT = '' @ commitHash @ '' ]; then export GIT_AUTHOR_DATE=''
                  @ [CHR 0x22] @ newDate @ [CHR 0x22] @ ''; export GIT_COMMITTER_DATE=''
                  @ [CHR 0x22] @ newDate @ [CHR 0x22] @ ''; fi'',
                  ''--'', ''--all'']]
         \<and> calls w1 =
           calls w @ (if truthy currentDate then []
                      else [CShow [''--format=%ci'', ''-s'', commitHash]])"
  using assms
  by (auto simp: editCommitDate_def editCommitDateTry_def currentCommitDate_def raw_def
      gitShow_def call_def emit_def Let_def filterBranchArgs_def envFilter_def
      split: prod.splits sum.splits option.splits if_splits)

theorem rewrite_request_witness:
  "currentCommitDate test_rt (test_simpleGit (Some ''/work'')) ''4444444dddd''
     (Some ''2024-05-04 10:00:00 +0900'') (start repo_main) =
     (''2024-05-04 10:00:00 +0900'', start repo_main)
   \<and> inputBoxOptions test_rt ''2024-05-04 10:00:00 +0900'' = Inr shown_options
   \<and> enters ''2024-06-01 09:00:00'' shown_options = Some ''2024-06-01 09:00:00''
   \<and> ''2024-06-01 09:00:00'' \<noteq> []
   \<and> calls (editCommitDate test_rt test_simpleGit (enters ''2024-06-01 09:00:00'')
              (Some ''/work'') ''4444444dddd'' (Some ''2024-05-04 10:00:00 +0900'')
              (start repo_main)) =
       [CRaw [''filter-branch'', ''--env-filter'',
              ''if [ $GIT_COMMIT = 4444444dddd ]; then export GIT_AUTHOR_DATE=''
              @ [CHR 0x22] @ ''2024-06-01 09:00:00'' @ [CHR 0x22]
              @ ''; export GIT_COMMITTER_DATE='' @ [CHR 0x22] @ ''2024-06-01 09:00:00''
              @ [CHR 0x22] @ ''; fi'',
              ''--'', ''--all'']]"
proof -
  have h1: "currentCommitDate test_rt (test_simpleGit (Some ''/work'')) ''4444444dddd''
              (Some ''2024-05-04 10:00:00 +0900'') (start repo_main) =
              (''2024-05-04 10:00:00 +0900'', start repo_main)"
    by (simp add: currentCommitDate_def)
  have h2: "inputBoxOptions test_rt ''2024-05-04 10:00:00 +0900'' = Inr shown_options"
    by (simp add: inputBoxOptions_def toISOString_def test_rt_def shown_options_def
        txt_unavailable_def substring0_def Let_def)
  have h3: "enters ''2024-06-01 09:00:00'' shown_options = Some ''2024-06-01 09:00:00''"
    by (simp add: enters_def)
  have h4: "''2024-06-01 09:00:00'' \<noteq> []"
    by simp
  show ?thesis
    using h1 h2 h3 h4
      rewrite_request [where simpleGit = test_simpleGit
        and showInputBox = "enters ''2024-06-01 09:00:00''", OF h1 h2 h3 h4]
    by (simp add: start_def)
qed

text \<open>
  Claim C9. The text entered is not checked in any way: whatever non-empty text it is,
  the history rewrite is issued with it. When the tool rejects the request, the user is
  shown an error message made of a fixed prefix and the string conversion of the error,
  which ends with the text of the tool's error.
\<close>

theorem rejected_timestamp_surfaced:
  assumes "currentCommitDate rt (simpleGit (Some fsPath)) commitHash currentDate w = (current, w1)"
    and "inputBoxOptions rt current = Inr opts"
    and "showInputBox opts = Some newDate"
    and "newDate \<noteq> []"
    and "git_raw (simpleGit (Some fsPath)) (filterBranchArgs commitHash newDate) (repo w1) =
           (Inl e, r')"
  shows "editCommitDate rt simpleGit showInputBox (Some fsPath) commitHash currentDate w =
           w1\<lparr>repo := r',
              calls := calls w1 @ [CRaw (filterBranchArgs commitHash newDate)],
              ui := ui w1 @ [ShowInputBox opts,
                             ShowErrorMessage (txt_edit_error @ error_toString e)]\<rparr>
         \<and> (\<exists>pre. error_toString e = pre @ error_message e)"
proof -
  have "\<exists>pre. error_toString e = pre @ error_message e"
    by (cases e) auto
  then show ?thesis
    using assms
    by (simp add: editCommitDate_def editCommitDateTry_def raw_def call_def emit_def Let_def)
qed

theorem rejected_timestamp_surfaced_witness:
  "currentCommitDate test_rt (test_simpleGit (Some ''/work'')) ''4444444dddd''
     (Some ''2024-05-04 10:00:00 +0900'') (start repo_reject) =
     (''2024-05-04 10:00:00 +0900'', start repo_reject)
   \<and> inputBoxOptions test_rt ''2024-05-04 10:00:00 +0900'' = Inr shown_options
   \<and> enters ''yesterday'' shown_options = Some ''yesterday''
   \<and> ''yesterday'' \<noteq> []
   \<and> \<not> date_valid test_rt ''yesterday''
   \<and> git_raw (test_simpleGit (Some ''/work'')) (filterBranchArgs ''4444444dddd'' ''yesterday'')
        (repo (start repo_reject)) =
       (Inl (Error ''Error'' ''fatal: invalid date format: yesterday''), repo_reject)
   \<and> editCommitDate test_rt test_simpleGit (enters ''yesterday'') (Some ''/work'')
        ''4444444dddd'' (Some ''2024-05-04 10:00:00 +0900'') (start repo_reject) =
       \<lparr>repo = repo_reject,
        calls = [CRaw (filterBranchArgs ''4444444dddd'' ''yesterday'')],
        ui = [ShowInputBox shown_options,
              ShowErrorMessage
                (txt_edit_error @ ''Error: fatal: invalid date format: yesterday'')]\<rparr>"
proof -
  have h1: "currentCommitDate test_rt (test_simpleGit (Some ''/work'')) ''4444444dddd''
              (Some ''2024-05-04 10:00:00 +0900'') (start repo_reject) =
              (''2024-05-04 10:00:00 +0900'', start repo_reject)"
    by (simp add: currentCommitDate_def)
  have h2: "inputBoxOptions test_rt ''2024-05-04 10:00:00 +0900'' = Inr shown_options"
    by (simp add: inputBoxOptions_def toISOString_def test_rt_def shown_options_def
        txt_unavailable_def substring0_def Let_def)
  have h3: "enters ''yesterday'' shown_options = Some ''yesterday''"
    by (simp add: enters_def)
  have h4: "''yesterday'' \<noteq> []"
    by simp
  have h5: "git_raw (test_simpleGit (Some ''/work''))
              (filterBranchArgs ''4444444dddd'' ''yesterday'') (repo (start repo_reject)) =
              (Inl (Error ''Error'' ''fatal: invalid date format: yesterday''), repo_reject)"
    by (simp add: test_simpleGit_def test_git_def start_def repo_reject_def)
  have h6: "\<not> date_valid test_rt ''yesterday''"
    by (simp add: test_rt_def)
  show ?thesis
    using h1 h2 h3 h4 h5 h6
      rejected_timestamp_surfaced [where simpleGit = test_simpleGit
        and showInputBox = "enters ''yesterday''", OF h1 h2 h3 h4 h5]
    by (simp add: start_def)
qed

text \<open>
  Claim C10. When the user dismisses the input box or submits the empty text, whatever
  the options shown, the command issues no history rewrite: the only call it may have
  made is the \<open>git show\<close> that reads the current date when none came with the command. The
  repository is then as before, given that this reading, where it happens, leaves it so.
\<close>

theorem cancelled_edit_no_rewrite:
  assumes "\<And>opts. \<not> truthy (showInputBox opts)"
  shows "calls (editCommitDate rt simpleGit showInputBox workspaceFolder commitHash currentDate w) =
           calls w @ (case workspaceFolder of
                        None \<Rightarrow> []
                      | Some fsPath \<Rightarrow>
                          if truthy currentDate then []
                          else [CShow [''--format=%ci'', ''-s'', commitHash]])
         \<and> ((case workspaceFolder of
                None \<Rightarrow> True
              | Some fsPath \<Rightarrow>
                  truthy currentDate \<or>
                  snd (git_show (simpleGit (Some fsPath)) [''--format=%ci'', ''-s'', commitHash]
                         (repo w)) = repo w)
             \<longrightarrow> repo (editCommitDate rt simpleGit showInputBox workspaceFolder commitHash
                         currentDate w) = repo w)"
proof (cases workspaceFolder)
  case None
  then show ?thesis
    by (simp add: editCommitDate_def)
next
  case (Some fsPath)
  have t: "\<And>opts. showInputBox opts = None \<or> showInputBox opts = Some []"
  proof -
    fix opts
    show "showInputBox opts = None \<or> showInputBox opts = Some []"
      using assms [of opts] by (cases "showInputBox opts") auto
  qed
  let ?g = "simpleGit (Some fsPath)"
  obtain current w1 where c: "currentCommitDate rt ?g commitHash currentDate w = (current, w1)"
    by (cases "currentCommitDate rt ?g commitHash currentDate w") auto
  have c1: "calls w1 = calls w @ (if truthy currentDate then []
                                  else [CShow [''--format=%ci'', ''-s'', commitHash]])"
    using c
    by (auto simp: currentCommitDate_def gitShow_def call_def
        split: prod.splits sum.splits option.splits if_splits)
  have r1: "truthy currentDate \<or>
            snd (git_show ?g [''--format=%ci'', ''-s'', commitHash] (repo w)) = repo w
            \<Longrightarrow> repo w1 = repo w"
    using c
    by (auto simp: currentCommitDate_def gitShow_def call_def
        split: prod.splits sum.splits option.splits if_splits)
  have e: "calls (editCommitDate rt simpleGit showInputBox workspaceFolder commitHash currentDate w)
             = calls w1
           \<and> repo (editCommitDate rt simpleGit showInputBox workspaceFolder commitHash
                     currentDate w) = repo w1"
  proof (cases "inputBoxOptions rt current")
    case (Inl err)
    then show ?thesis
      using Some c by (simp add: editCommitDate_def editCommitDateTry_def emit_def)
  next
    case (Inr opts)
    then show ?thesis
      using Some c t [of opts]
      by (auto simp: editCommitDate_def editCommitDateTry_def emit_def Let_def)
  qed
  show ?thesis
    using Some e c1 r1 by simp
qed

theorem cancelled_edit_no_rewrite_witness:
  "(\<forall>opts. \<not> truthy (dismisses opts))
   \<and> calls (editCommitDate test_rt test_simpleGit dismisses (Some ''/work'') ''4444444dddd''
              (Some ''2024-05-04 10:00:00 +0900'') (start repo_main)) = []
   \<and> repo (editCommitDate test_rt test_simpleGit dismisses (Some ''/work'') ''4444444dddd''
             (Some ''2024-05-04 10:00:00 +0900'') (start repo_main)) = repo_main
   \<and> (\<forall>opts. \<not> truthy (enters [] opts))
   \<and> calls (editCommitDate test_rt test_simpleGit (enters []) (Some ''/work'') ''4444444dddd''
              None (start repo_main)) = [CShow [''--format=%ci'', ''-s'', ''4444444dddd'']]
   \<and> repo (editCommitDate test_rt test_simpleGit (enters []) (Some ''/work'') ''4444444dddd''
             None (start repo_main)) = repo_main"
proof -
  have h1: "\<And>opts. \<not> truthy (dismisses opts)"
    by (simp add: dismisses_def)
  have h2: "\<And>opts. \<not> truthy (enters [] opts)"
    by (simp add: enters_def)
  have s: "snd (git_show (test_simpleGit (Some ''/work''))
                  [''--format=%ci'', ''-s'', ''4444444dddd''] (repo (start repo_main))) =
             repo (start repo_main)"
    by (simp add: test_simpleGit_def test_git_def)
  show ?thesis
    using h1 h2 s
      cancelled_edit_no_rewrite [where showInputBox = dismisses and rt = test_rt
        and simpleGit = test_simpleGit and workspaceFolder = "Some ''/work''"
        and commitHash = "''4444444dddd''" and currentDate = "Some ''2024-05-04 10:00:00 +0900''"
        and w = "start repo_main", OF h1]
      cancelled_edit_no_rewrite [where showInputBox = "enters []" and rt = test_rt
        and simpleGit = test_simpleGit and workspaceFolder = "Some ''/work''"
        and commitHash = "''4444444dddd''" and currentDate = None
        and w = "start repo_main", OF h2]
    by (simp add: start_def)
qed

text \<open>
  The same edit with a text entered, on the repository where the rewrite succeeds: one
  writing command has run, the tree is refreshed and the user is told.
\<close>

lemma edit_of_repo_main:
  "editCommitDate test_rt test_simpleGit (enters ''2024-06-01 09:00:00'') (Some ''/work'')
     ''4444444dddd'' (Some ''2024-05-04 10:00:00 +0900'') (start repo_main) =
     \<lparr>repo = written repo_main,
      calls = [CRaw (filterBranchArgs ''4444444dddd'' ''2024-06-01 09:00:00'')],
      ui = [ShowInputBox shown_options, Refresh,
            ShowInformationMessage (txt_commit_prefix @ ''4444444'' @ txt_time_updated)]\<rparr>"
  by (simp add: editCommitDate_def editCommitDateTry_def currentCommitDate_def
      inputBoxOptions_def toISOString_def test_rt_def shown_options_def txt_unavailable_def
      substring0_def Let_def enters_def raw_def call_def emit_def test_simpleGit_def
      test_git_def start_def repo_main_def)

end
